theory Spec2Isabelle
  imports Main
begin

section \<open>Python strings\<close>

text \<open>
  A Python \<open>str\<close> is a sequence of Unicode code points, and \<open>len\<close>, slicing and
  \<open>strip\<close> work on code points. A string is therefore a list of code points, each a
  natural number; an ASCII literal of the source is written \<open>lit ''...''\<close>.
\<close>

type_synonym codepoint = nat
type_synonym str = "codepoint list"

definition lit :: "string \<Rightarrow> str" where
  "lit s = map of_char s"

definition NL :: codepoint where
  "NL = 10"

definition SP :: codepoint where
  "SP = 32"

definition DASH :: codepoint where
  "DASH = 45"

text \<open>
  \<open>str.isspace\<close> on one code point, which is also what \<open>\s\<close> matches in a \<open>str\<close>
  pattern of \<open>re\<close>: the ASCII controls 9 to 13 and 28 to 31, the space, and the Unicode
  separators.
\<close>

definition isspace :: "codepoint \<Rightarrow> bool" where
  "isspace c \<longleftrightarrow>
     (9 \<le> c \<and> c \<le> 13) \<or> (28 \<le> c \<and> c \<le> 32) \<or> c = 133 \<or> c = 160 \<or> c = 5760 \<or>
     (8192 \<le> c \<and> c \<le> 8202) \<or> c = 8232 \<or> c = 8233 \<or> c = 8239 \<or> c = 8287 \<or> c = 12288"

text \<open>\<open>s.strip()\<close>: leading and trailing whitespace removed.\<close>

definition strip :: "str \<Rightarrow> str" where
  "strip s = rev (dropWhile isspace (rev (dropWhile isspace s)))"

text \<open>\<open>s.startswith(p)\<close>.\<close>

definition startswith :: "str \<Rightarrow> str \<Rightarrow> bool" where
  "startswith s p \<longleftrightarrow> take (length p) s = p"

text \<open>\<open>s.split(sep)\<close> for a separator of one code point: every occurrence splits.\<close>

fun split_from :: "codepoint \<Rightarrow> str \<Rightarrow> str \<Rightarrow> str list" where
  "split_from sep cur [] = [cur]"
| "split_from sep cur (c # cs) =
     (if c = sep then cur # split_from sep [] cs else split_from sep (cur @ [c]) cs)"

definition split :: "codepoint \<Rightarrow> str \<Rightarrow> str list" where
  "split sep s = split_from sep [] s"

text \<open>\<open>s.split(sep, 1)\<close>: at most one split, at the first occurrence.\<close>

definition split1 :: "codepoint \<Rightarrow> str \<Rightarrow> str list" where
  "split1 sep s =
     (if sep \<in> set s
      then [takeWhile (\<lambda>c. c \<noteq> sep) s, tl (dropWhile (\<lambda>c. c \<noteq> sep) s)]
      else [s])"

text \<open>\<open>str(n)\<close> of a non-negative integer: its decimal digits.\<close>

fun dec :: "nat \<Rightarrow> str" where
  "dec n = (if n < 10 then [48 + n] else dec (n div 10) @ [48 + n mod 10])"

declare dec.simps [simp del]

section \<open>The extractor\<close>

text \<open>
  The dictionary returned by \<open>_extract_if_review\<close> has exactly the keys \<open>pmid\<close>,
  \<open>title\<close> and \<open>publication_types\<close>.
\<close>

record article =
  pmid :: str
  title :: str
  publication_types :: "str list"

text \<open>\<open>current_field\<close> is \<open>None\<close> or the string \<open>'title'\<close>.\<close>

datatype field = Title

text \<open>The local variables of the line loop of \<open>_extract_if_review\<close>.\<close>

record scan =
  s_pmid :: str
  s_title :: str
  s_publication_types :: "str list"
  current_field :: "field option"
  current_value :: str

definition scan_init :: scan where
  "scan_init = \<lparr>s_pmid = [], s_title = [], s_publication_types = [],
                 current_field = None, current_value = []\<rparr>"

text \<open>
  One iteration of \<open>for line in lines\<close>. The value of a field is
  \<open>line.split('-', 1)[1].strip()\<close>; index 1 exists because the guard has found a
  prefix that contains the separator (lemma \<open>split1_prefixed\<close> below).
\<close>

definition scan_line :: "scan \<Rightarrow> str \<Rightarrow> scan" where
  "scan_line s line =
     (if startswith line (lit ''PMID-'') then
        s\<lparr>s_pmid := strip (split1 DASH line ! 1)\<rparr>
      else if startswith line (lit ''TI  -'') then
        s\<lparr>current_field := Some Title, current_value := strip (split1 DASH line ! 1)\<rparr>
      else if startswith line (lit ''PT  -'') then
        s\<lparr>s_publication_types := s_publication_types s @ [strip (split1 DASH line ! 1)]\<rparr>
      else if startswith line (lit ''      '') \<and> current_field s = Some Title then
        s\<lparr>current_value := current_value s @ lit '' '' @ strip line\<rparr>
      else
        (if current_field s = Some Title then s\<lparr>s_title := current_value s\<rparr> else s)
          \<lparr>current_field := None, current_value := []\<rparr>)"

definition scan_lines :: "scan \<Rightarrow> str list \<Rightarrow> scan" where
  "scan_lines s lines = foldl scan_line s lines"

text \<open>After the loop: \<open>if current_field == 'title': title = current_value\<close>.\<close>

definition flush_last :: "scan \<Rightarrow> scan" where
  "flush_last s = (if current_field s = Some Title then s\<lparr>s_title := current_value s\<rparr> else s)"

definition review_keywords :: "str list" where
  "review_keywords = [lit ''Review'', lit ''Systematic Review'', lit ''Meta-Analysis'', lit ''review'']"

definition is_review :: "str list \<Rightarrow> bool" where
  "is_review pts \<longleftrightarrow> list_ex (\<lambda>keyword. keyword \<in> set pts) review_keywords"

definition block_lines :: "str \<Rightarrow> str list" where
  "block_lines block = split NL (strip block)"

definition extract_if_review :: "str \<Rightarrow> article option" where
  "extract_if_review block =
     (let s = flush_last (scan_lines scan_init (block_lines block)) in
      if is_review (s_publication_types s) \<and> s_pmid s \<noteq> []
      then Some \<lparr>pmid = s_pmid s, title = s_title s,
                 publication_types = s_publication_types s\<rparr>
      else None)"

text \<open>The variables as they stand when the loop and the last flush are done.\<close>

definition scan_block :: "str \<Rightarrow> scan" where
  "scan_block block = flush_last (scan_lines scan_init (block_lines block))"

section \<open>Splitting a file into blocks\<close>

text \<open>
  \<open>re.split(r'\n\s*\n', content)\<close>. The pattern matches at a newline when the longest
  run of whitespace after it holds another newline, and, \<open>\s*\<close> being greedy, the
  match ends at the last newline of that run. The search goes from left to right and
  resumes after each match; \<open>cur\<close> is the piece read since the last match.
\<close>

definition match_len :: "str \<Rightarrow> nat" where
  "match_len rest =
     (let run = takeWhile isspace rest
      in length run - length (takeWhile (\<lambda>c. c \<noteq> NL) (rev run)))"

function re_split_from :: "str \<Rightarrow> str \<Rightarrow> str list" where
  "re_split_from cur [] = [cur]"
| "re_split_from cur (c # rest) =
     (if c = NL \<and> NL \<in> set (takeWhile isspace rest)
      then cur # re_split_from [] (drop (match_len rest) rest)
      else re_split_from (cur @ [c]) rest)"
  by pat_completeness auto
termination
  by (relation "measure (\<lambda>(cur, s). length s)") auto

definition re_split :: "str \<Rightarrow> str list" where
  "re_split content = re_split_from [] content"

section \<open>The run: files, console and the accumulated list\<close>

text \<open>
  A path that exists is a file, given by the text that \<open>file.read()\<close> returns for it
  (decoded, invalid bytes dropped), or something \<open>open\<close> refuses, a directory for
  instance. A path that does not exist has no node.
\<close>

datatype node = File str | NotReadable

type_synonym filesystem = "str \<Rightarrow> node option"

text \<open>
  The exceptions that end a run: \<open>open\<close> refusing a path, a string that UTF-8
  cannot encode, and the exit of \<open>parse_args\<close> with its status. When a run ends in an
  exception the model gives the exception only, not what had been printed or written
  before it.
\<close>

datatype error = OSError str | UnicodeEncodeError | SystemExit nat

text \<open>
  The state of a run: \<open>self.review_articles\<close>, the arguments of the calls of
  \<open>print\<close> in order, and the files written in order, each with its path and the whole
  text written to it (\<open>open(filename, 'w')\<close> empties the file first, so the last entry
  of a path is what the file holds). The console is taken to accept every string.
\<close>

record state =
  review_articles :: "article list"
  stdout :: "str list"
  written :: "(str \<times> str) list"

definition init_state :: state where
  "init_state = \<lparr>review_articles = [], stdout = [], written = []\<rparr>"

definition print :: "str \<Rightarrow> state \<Rightarrow> state" where
  "print msg st = st\<lparr>stdout := stdout st @ [msg]\<rparr>"

text \<open>The body of \<open>for block in article_blocks\<close>.\<close>

definition parse_block :: "state \<Rightarrow> str \<Rightarrow> state" where
  "parse_block st block =
     (if strip block \<noteq> [] then
        (case extract_if_review block of
           Some review_info \<Rightarrow> st\<lparr>review_articles := review_articles st @ [review_info]\<rparr>
         | None \<Rightarrow> st)
      else st)"

definition parse_medline_file :: "filesystem \<Rightarrow> str \<Rightarrow> state \<Rightarrow> error + state" where
  "parse_medline_file fs filepath st =
     (let st1 = print (lit ''Parsing file: '' @ filepath) st in
      case fs filepath of
        Some (File content) \<Rightarrow>
          (let article_blocks = re_split content;
               st2 = foldl parse_block st1 article_blocks
           in Inr (print (lit ''Found '' @ dec (length (review_articles st2)) @
                          lit '' review articles in '' @ filepath) st2))
      | _ \<Rightarrow> Inl (OSError filepath))"

section \<open>Export\<close>

definition export_line :: "str \<Rightarrow> article \<Rightarrow> str" where
  "export_line format_type article =
     (if format_type = lit ''pmid'' then pmid article @ [NL]
      else if format_type = lit ''pmid_with_title'' then
        lit ''PMID-'' @ pmid article @ lit '' # '' @ take 80 (title article) @
        (if length (title article) > 80 then lit ''...'' else []) @ [NL]
      else if format_type = lit ''title'' then title article @ [NL]
      else [])"

text \<open>The four header lines, the last written with the empty line that follows it.\<close>

definition export_header :: "nat \<Rightarrow> str" where
  "export_header n =
     lit ''# Review articles exclusion list'' @ [NL] @
     lit ''# Generated automatically from MEDLINE publication types'' @ [NL] @
     lit ''# Total reviews found: '' @ dec n @ [NL] @
     lit ''# Format: PMID per line'' @ [NL, NL]"

definition export_text :: "str \<Rightarrow> article list \<Rightarrow> str" where
  "export_text format_type articles =
     export_header (length articles) @ concat (map (export_line format_type) articles)"

text \<open>
  A string that \<open>encoding='utf-8'\<close> can write: no surrogate and nothing beyond the last
  code point. Text decoded from a file is always of this kind.
\<close>

definition encodable :: "str \<Rightarrow> bool" where
  "encodable s \<longleftrightarrow> list_all (\<lambda>c. c < 55296 \<or> (57343 < c \<and> c < 1114112)) s"

text \<open>
  \<open>writable\<close> tells whether \<open>open(filename, 'w')\<close> succeeds. A \<open>write\<close> of a
  string that cannot be encoded raises.
\<close>

definition export_for_webapp :: "(str \<Rightarrow> bool) \<Rightarrow> str \<Rightarrow> str \<Rightarrow> state \<Rightarrow> error + state" where
  "export_for_webapp writable filename format_type st =
     (if \<not> writable filename then Inl (OSError filename)
      else if \<not> encodable (export_text format_type (review_articles st)) then
        Inl UnicodeEncodeError
      else
        Inr (print (lit ''Exported '' @ dec (length (review_articles st)) @
                    lit '' review articles to '' @ filename)
               (st\<lparr>written := written st @
                      [(filename, export_text format_type (review_articles st))]\<rparr>)))"

section \<open>Statistics\<close>

text \<open>
  \<open>Counter(all_types).most_common()\<close>: the counts in the order in which each type was
  first seen, sorted by decreasing count with a stable sort.
\<close>

fun count_add :: "(str \<times> nat) list \<Rightarrow> str \<Rightarrow> (str \<times> nat) list" where
  "count_add [] t = [(t, 1)]"
| "count_add ((u, n) # rest) t =
     (if u = t then (u, Suc n) # rest else (u, n) # count_add rest t)"

definition most_common :: "str list \<Rightarrow> (str \<times> nat) list" where
  "most_common all_types = sort_key (\<lambda>p. - int (snd p)) (foldl count_add [] all_types)"

text \<open>\<open>sub in s\<close> for two strings.\<close>

fun contains :: "str \<Rightarrow> str \<Rightarrow> bool" where
  "contains [] sub = (sub = [])"
| "contains (c # cs) sub = (startswith (c # cs) sub \<or> contains cs sub)"

text \<open>\<open>sep.join(parts)\<close>.\<close>

fun join :: "str \<Rightarrow> str list \<Rightarrow> str" where
  "join sep [] = []"
| "join sep [p] = p"
| "join sep (p # q # ps) = p @ sep @ join sep (q # ps)"

text \<open>
  \<open>str.lower\<close> follows the Unicode case tables, which are not part of the program: it
  is the parameter \<open>lower\<close>. On the two keywords, which are lower-case ASCII, it changes
  nothing.
\<close>

definition type_lines :: "(str \<Rightarrow> str) \<Rightarrow> (str \<times> nat) list \<Rightarrow> str list" where
  "type_lines lower counts =
     map (\<lambda>(pub_type, count). lit ''  '' @ pub_type @ lit '': '' @ dec count)
       (filter (\<lambda>(pub_type, count).
            list_ex (\<lambda>keyword. contains (lower pub_type) keyword) [lit ''review'', lit ''meta''])
          counts)"

definition example_lines :: "nat \<Rightarrow> article \<Rightarrow> str list" where
  "example_lines i article =
     [lit ''  '' @ dec (i + 1) @ lit ''. PMID '' @ pmid article @ lit '': '' @
        take 60 (title article) @ (if length (title article) > 60 then lit ''...'' else []),
      lit ''     Types: '' @ join (lit '', '') (publication_types article)]"

definition show_statistics :: "(str \<Rightarrow> str) \<Rightarrow> state \<Rightarrow> state" where
  "show_statistics lower st =
     (if review_articles st = [] then print (lit ''No review articles found.'') st
      else
        (let all_types = concat (map publication_types (review_articles st));
             first5 = take 5 (review_articles st)
         in foldl (\<lambda>st msg. print msg st) st
              ([[NL] @ lit ''Review Articles Statistics:'',
                lit ''Total review articles: '' @ dec (length (review_articles st)),
                [NL] @ lit ''Publication types found:''] @
               type_lines lower (most_common all_types) @
               [[NL] @ lit ''First 5 review articles:''] @
               concat (map (\<lambda>(i, article). example_lines i article)
                         (zip [0 ..< length first5] first5)))))"

section \<open>The command line\<close>

text \<open>The parsed arguments \<open>args.files\<close>, \<open>args.output\<close> and \<open>args.format\<close>.\<close>

record args =
  arg_files :: "str list"
  arg_output :: str
  arg_format :: str

text \<open>The loop \<open>for filepath in args.files\<close> of \<open>main\<close>.\<close>

fun parse_files :: "filesystem \<Rightarrow> str list \<Rightarrow> state \<Rightarrow> error + state" where
  "parse_files fs [] st = Inr st"
| "parse_files fs (filepath # rest) st =
     (if fs filepath \<noteq> None then
        (case parse_medline_file fs filepath st of
           Inl e \<Rightarrow> Inl e
         | Inr st' \<Rightarrow> parse_files fs rest st')
      else parse_files fs rest (print (lit ''Warning: File '' @ filepath @ lit '' not found'') st))"

definition use_this_file :: str where
  "use_this_file =
     [NL] @ lit ''Use this file in your web app as the '' @ [39] @ lit ''Review Articles'' @ [39] @
     lit '' exclusion list to get the same 136 reviews.''"

definition no_reviews_to_export :: str where
  "no_reviews_to_export = [NL] @ lit ''No review articles found to export.''"

text \<open>
  \<open>main\<close> from the parsed arguments on. \<open>parse_args\<close> ends the run with status 2
  unless at least one file is given (\<open>nargs='+'\<close>) and the format is one of the
  \<open>choices\<close>, so arguments of another kind are refused in the same way.
\<close>

definition main :: "(str \<Rightarrow> str) \<Rightarrow> filesystem \<Rightarrow> (str \<Rightarrow> bool) \<Rightarrow> args \<Rightarrow> error + state" where
  "main lower fs writable a =
     (if arg_files a = [] \<or>
         arg_format a \<notin> set [lit ''pmid'', lit ''pmid_with_title'', lit ''title'']
      then Inl (SystemExit 2)
      else
        (case parse_files fs (arg_files a) init_state of
           Inl e \<Rightarrow> Inl e
         | Inr st \<Rightarrow>
             (let st' = show_statistics lower st in
              if review_articles st' \<noteq> [] then
                (case export_for_webapp writable (arg_output a) (arg_format a) st' of
                   Inl e \<Rightarrow> Inl e
                 | Inr st'' \<Rightarrow> Inr (print use_this_file st''))
              else Inr (print no_reviews_to_export st'))))"

section \<open>Notions used to state the properties\<close>

text \<open>A text file with the given lines, each ended by a newline.\<close>

definition unlines :: "str list \<Rightarrow> str" where
  "unlines ls = concat (map (\<lambda>l. l @ [NL]) ls)"

text \<open>The kinds of line that the loop tells apart.\<close>

definition is_pmid_line :: "str \<Rightarrow> bool" where
  "is_pmid_line line \<longleftrightarrow> startswith line (lit ''PMID-'')"

definition is_ti_line :: "str \<Rightarrow> bool" where
  "is_ti_line line \<longleftrightarrow> startswith line (lit ''TI  -'')"

definition is_pt_line :: "str \<Rightarrow> bool" where
  "is_pt_line line \<longleftrightarrow> startswith line (lit ''PT  -'')"

definition is_indented :: "str \<Rightarrow> bool" where
  "is_indented line \<longleftrightarrow> startswith line (lit ''      '')"

text \<open>
  The lines that the loop appends to the title after a \<open>TI  -\<close> line, given the lines
  \<open>post\<close> that follow it: every indented line up to the first line that is neither a
  \<open>PMID-\<close> line, a \<open>PT  -\<close> line nor indented. An indented line that comes after a
  \<open>PMID-\<close> or \<open>PT  -\<close> line is among them.
\<close>

definition appended_lines :: "str list \<Rightarrow> str list" where
  "appended_lines post =
     filter is_indented
       (takeWhile (\<lambda>l. is_pmid_line l \<or> is_pt_line l \<or> is_indented l) post)"

text \<open>The records that one file adds to the list.\<close>

definition file_reviews :: "str \<Rightarrow> article list" where
  "file_reviews content = List.map_filter extract_if_review (re_split content)"

text \<open>The message that \<open>parse_medline_file\<close> prints last, for the number \<open>n\<close>.\<close>

definition found_message :: "nat \<Rightarrow> str \<Rightarrow> str" where
  "found_message n filepath =
     lit ''Found '' @ dec n @ lit '' review articles in '' @ filepath"

text \<open>The example block of the specification and the record it yields.\<close>

definition example_block :: str where
  "example_block =
     lit ''PMID- 12345'' @ [NL] @ lit ''TI  - A Study of'' @ [NL] @ lit ''      Widgets'' @ [NL] @
     lit ''PT  - Review''"

definition example_record :: article where
  "example_record =
     \<lparr>pmid = lit ''12345'', title = lit ''A Study of Widgets'',
      publication_types = [lit ''Review'']\<rparr>"

text \<open>A block with two identifier lines and two title lines.\<close>

definition repeated_block :: str where
  "repeated_block =
     lit ''PMID- 1'' @ [NL] @ lit ''PMID- 2'' @ [NL] @ lit ''TI  - Old'' @ [NL] @
     lit ''      more'' @ [NL] @ lit ''TI  - New'' @ [NL] @ lit ''      title'' @ [NL] @
     lit ''PT  - Review''"

text \<open>Blocks in which an indented line follows a \<open>PT  -\<close> or \<open>PMID-\<close> line.\<close>

definition trailing_block :: str where
  "trailing_block =
     lit ''PMID- 1'' @ [NL] @ lit ''TI  - A'' @ [NL] @ lit ''      B'' @ [NL] @
     lit ''PT  - Review'' @ [NL] @ lit ''      C''"

definition interleaved_block :: str where
  "interleaved_block =
     lit ''PMID- 1'' @ [NL] @ lit ''TI  - Old'' @ [NL] @ lit ''TI  - New'' @ [NL] @
     lit ''PT  - Review'' @ [NL] @ lit ''      of the type'' @ [NL] @ lit ''PMID- 2'' @ [NL] @
     lit ''      tail''"

text \<open>The lines of an exported file: the header lines and the line of one record.\<close>

definition header_lines :: "nat \<Rightarrow> str list" where
  "header_lines n =
     [lit ''# Review articles exclusion list'',
      lit ''# Generated automatically from MEDLINE publication types'',
      lit ''# Total reviews found: '' @ dec n,
      lit ''# Format: PMID per line'']"

definition data_line :: "str \<Rightarrow> article \<Rightarrow> str" where
  "data_line format_type article =
     (if format_type = lit ''pmid'' then pmid article
      else if format_type = lit ''pmid_with_title'' then
        lit ''PMID-'' @ pmid article @ lit '' # '' @
        (if length (title article) > 80 then take 80 (title article) @ lit ''...''
         else title article)
      else title article)"

definition recognized :: "str \<Rightarrow> bool" where
  "recognized format_type \<longleftrightarrow>
     format_type = lit ''pmid'' \<or> format_type = lit ''pmid_with_title'' \<or>
     format_type = lit ''title''"

text \<open>No newline in the identifier, the title or the value being accumulated.\<close>

definition newline_free :: "scan \<Rightarrow> bool" where
  "newline_free s \<longleftrightarrow>
     NL \<notin> set (s_pmid s) \<and> NL \<notin> set (s_title s) \<and> NL \<notin> set (current_value s)"


text \<open>A block whose title has 90 characters, and the record it yields.\<close>

definition long_title :: str where
  "long_title =
     lit ''A systematic review of widget studies across twelve countries and forty years of field use''"

definition long_block :: str where
  "long_block =
     lit ''PMID- 7'' @ [NL] @ lit ''TI  - '' @ long_title @ [NL] @ lit ''PT  - Meta-Analysis''"

definition long_record :: article where
  "long_record =
     \<lparr>pmid = lit ''7'', title = long_title, publication_types = [lit ''Meta-Analysis'']\<rparr>"

text \<open>
  A file system with two files: one holds the example block, the other an article that
  is no review. Every other path is missing.
\<close>

definition other_block :: str where
  "other_block = lit ''PMID- 9'' @ [NL] @ lit ''PT  - Journal Article'' @ [NL]"

definition example_fs :: filesystem where
  "example_fs filepath =
     (if filepath = lit ''reviews.txt'' then Some (File (example_block @ [NL]))
      else if filepath = lit ''other.txt'' then Some (File other_block)
      else None)"

text \<open>\<open>str.lower\<close> on ASCII text, for the examples.\<close>

definition ascii_lower :: "str \<Rightarrow> str" where
  "ascii_lower s = map (\<lambda>c. if 65 \<le> c \<and> c \<le> 90 then c + 32 else c) s"

text \<open>The arguments of a run on the file of the example with the default output and format.\<close>

definition example_args :: args where
  "example_args =
     \<lparr>arg_files = [lit ''reviews.txt''], arg_output = lit ''review_articles_exclusion.txt'',
      arg_format = lit ''pmid''\<rparr>"
section \<open>Facts about strings\<close>

lemmas eval_defs = lit_def NL_def SP_def DASH_def isspace_def strip_def startswith_def split_def
  split1_def scan_init_def scan_line_def scan_lines_def flush_last_def review_keywords_def
  is_review_def block_lines_def extract_if_review_def scan_block_def

lemma split1_prefixed:
  assumes "startswith line p" and "DASH \<in> set p"
  shows "length (split1 DASH line) = 2"
proof -
  from assms(1) have "set p \<subseteq> set line"
    unfolding startswith_def by (metis set_take_subset)
  with assms(2) show ?thesis by (auto simp: split1_def)
qed

lemma startswith_decompose: "startswith line p \<Longrightarrow> line = p @ drop (length p) line"
  unfolding startswith_def by (metis append_take_drop_id)

lemma split_at_first:
  "sep \<notin> set p \<Longrightarrow>
   takeWhile (\<lambda>c. c \<noteq> sep) (p @ sep # r) = p \<and> dropWhile (\<lambda>c. c \<noteq> sep) (p @ sep # r) = sep # r"
  by (induction p) auto

lemma field_text:
  assumes "startswith line (p @ [DASH])" and "DASH \<notin> set p"
  shows "split1 DASH line ! Suc 0 = drop (Suc (length p)) line"
proof -
  define r where "r = drop (Suc (length p)) line"
  have "line = p @ DASH # r"
    using startswith_decompose [OF assms(1)] by (simp add: r_def)
  moreover have "split1 DASH (p @ DASH # r) = [p, r]"
    using split_at_first [OF assms(2), of r] by (simp add: split1_def)
  ultimately show ?thesis by (simp add: r_def)
qed

lemma field_text_pmid:
  assumes "startswith line (lit ''PMID-'')"
  shows "split1 DASH line ! Suc 0 = drop 5 line"
  using field_text [of line "lit ''PMID''"] assms
  by (simp add: lit_def DASH_def eval_nat_numeral)

lemma field_text_ti:
  assumes "startswith line (lit ''TI  -'')"
  shows "split1 DASH line ! Suc 0 = drop 5 line"
  using field_text [of line "lit ''TI  ''"] assms
  by (simp add: lit_def DASH_def eval_nat_numeral)

lemma field_text_pt:
  assumes "startswith line (lit ''PT  -'')"
  shows "split1 DASH line ! Suc 0 = drop 5 line"
  using field_text [of line "lit ''PT  ''"] assms
  by (simp add: lit_def DASH_def eval_nat_numeral)

lemma startswith_nth: "startswith line p \<Longrightarrow> i < length p \<Longrightarrow> line ! i = p ! i"
  unfolding startswith_def by (metis nth_take)

lemma pmid_line_start: "is_pmid_line line \<Longrightarrow> line ! 0 = 80 \<and> line ! 1 = 77"
  using startswith_nth [of line "lit ''PMID-''" 0] startswith_nth [of line "lit ''PMID-''" 1]
  by (simp add: is_pmid_line_def lit_def)

lemma ti_line_start: "is_ti_line line \<Longrightarrow> line ! 0 = 84"
  using startswith_nth [of line "lit ''TI  -''" 0] by (simp add: is_ti_line_def lit_def)

lemma pt_line_start: "is_pt_line line \<Longrightarrow> line ! 0 = 80 \<and> line ! 1 = 84"
  using startswith_nth [of line "lit ''PT  -''" 0] startswith_nth [of line "lit ''PT  -''" 1]
  by (simp add: is_pt_line_def lit_def)

lemma indented_start: "is_indented line \<Longrightarrow> line ! 0 = 32"
  using startswith_nth [of line "lit ''      ''" 0] by (simp add: is_indented_def lit_def)

lemma line_kinds_exclusive:
  "is_pmid_line line \<Longrightarrow> \<not> is_ti_line line \<and> \<not> is_pt_line line \<and> \<not> is_indented line"
  "is_ti_line line \<Longrightarrow> \<not> is_pmid_line line \<and> \<not> is_pt_line line \<and> \<not> is_indented line"
  "is_pt_line line \<Longrightarrow> \<not> is_pmid_line line \<and> \<not> is_ti_line line \<and> \<not> is_indented line"
  "is_indented line \<Longrightarrow> \<not> is_pmid_line line \<and> \<not> is_ti_line line \<and> \<not> is_pt_line line"
  using pmid_line_start [of line] ti_line_start [of line] pt_line_start [of line]
    indented_start [of line]
  by auto

lemma strip_subset: "set (strip s) \<subseteq> set s"
  unfolding strip_def by (auto dest!: set_dropWhileD)

lemma dec_digits: "set (dec n) \<subseteq> {48..57}"
proof (induction n rule: dec.induct)
  case (1 n)
  show ?case
  proof (cases "n < 10")
    case True
    then show ?thesis by (subst dec.simps) auto
  next
    case False
    have "n mod 10 < 10" by simp
    then have "48 + n mod 10 \<in> {48..57}" by auto
    with False "1" show ?thesis by (subst dec.simps) auto
  qed
qed

lemma dec_no_newline: "NL \<notin> set (dec n)"
  using dec_digits [of n] by (auto simp: NL_def)

lemma split_from_no_sep:
  "sep \<notin> set cur \<Longrightarrow> l \<in> set (split_from sep cur s) \<Longrightarrow> sep \<notin> set l"
proof (induction s arbitrary: cur)
  case Nil
  then show ?case by simp
next
  case (Cons c cs)
  show ?case
  proof (cases "c = sep")
    case True
    with Cons.prems have "l = cur \<or> l \<in> set (split_from sep [] cs)" by simp
    then show ?thesis using Cons.IH [of "[]"] Cons.prems(1) by auto
  next
    case False
    with Cons.prems have "l \<in> set (split_from sep (cur @ [c]) cs)" by simp
    with Cons.IH [of "cur @ [c]"] Cons.prems(1) False show ?thesis by auto
  qed
qed

lemma block_lines_no_newline: "l \<in> set (block_lines block) \<Longrightarrow> NL \<notin> set l"
  using split_from_no_sep [of NL "[]" l "strip block"] by (simp add: block_lines_def split_def)

lemma unlines_Cons: "unlines (l # ls) = l @ [NL] @ unlines ls"
  by (simp add: unlines_def)

lemma unlines_append: "unlines (xs @ ys) = unlines xs @ unlines ys"
  by (simp add: unlines_def)

section \<open>One step of the line loop, by kind of line\<close>

lemma scan_line_pmid:
  "is_pmid_line line \<Longrightarrow> scan_line s line = s\<lparr>s_pmid := strip (drop 5 line)\<rparr>"
  by (simp add: scan_line_def is_pmid_line_def field_text_pmid)

lemma scan_line_ti:
  "is_ti_line line \<Longrightarrow>
   scan_line s line = s\<lparr>current_field := Some Title, current_value := strip (drop 5 line)\<rparr>"
  using line_kinds_exclusive(2) [of line]
  by (simp add: scan_line_def is_pmid_line_def is_ti_line_def field_text_ti)

lemma scan_line_pt:
  "is_pt_line line \<Longrightarrow>
   scan_line s line = s\<lparr>s_publication_types := s_publication_types s @ [strip (drop 5 line)]\<rparr>"
  using line_kinds_exclusive(3) [of line]
  by (simp add: scan_line_def is_pmid_line_def is_ti_line_def is_pt_line_def field_text_pt)

lemma scan_line_continuation:
  "is_indented line \<Longrightarrow> current_field s = Some Title \<Longrightarrow>
   scan_line s line = s\<lparr>current_value := current_value s @ lit '' '' @ strip line\<rparr>"
  using line_kinds_exclusive(4) [of line]
  by (simp add: scan_line_def is_pmid_line_def is_ti_line_def is_pt_line_def is_indented_def)

lemma scan_line_other:
  "\<not> is_pmid_line line \<Longrightarrow> \<not> is_ti_line line \<Longrightarrow> \<not> is_pt_line line \<Longrightarrow>
   \<not> (is_indented line \<and> current_field s = Some Title) \<Longrightarrow>
   scan_line s line =
     (if current_field s = Some Title then s\<lparr>s_title := current_value s\<rparr> else s)
       \<lparr>current_field := None, current_value := []\<rparr>"
  unfolding scan_line_def is_pmid_line_def is_ti_line_def is_pt_line_def is_indented_def
  by (cases "current_field s = Some Title") simp_all

lemma scan_lines_Nil [simp]: "scan_lines s [] = s"
  by (simp add: scan_lines_def)

lemma scan_lines_Cons [simp]: "scan_lines s (l # ls) = scan_lines (scan_line s l) ls"
  by (simp add: scan_lines_def)

lemma scan_lines_append [simp]: "scan_lines s (xs @ ys) = scan_lines (scan_lines s xs) ys"
  by (simp add: scan_lines_def)

section \<open>Which blocks are retained\<close>

lemma scan_line_pmid_kept: "\<not> is_pmid_line line \<Longrightarrow> s_pmid (scan_line s line) = s_pmid s"
  by (simp add: scan_line_def is_pmid_line_def)

lemma scan_lines_pmid_kept:
  "\<forall>line \<in> set lines. \<not> is_pmid_line line \<Longrightarrow> s_pmid (scan_lines s lines) = s_pmid s"
  by (induction lines arbitrary: s) (simp_all add: scan_line_pmid_kept)

lemma flush_last_pmid [simp]: "s_pmid (flush_last s) = s_pmid s"
  by (simp add: flush_last_def)

lemma flush_last_types [simp]: "s_publication_types (flush_last s) = s_publication_types s"
  by (simp add: flush_last_def)

lemma is_review_iff:
  "is_review pts \<longleftrightarrow>
     lit ''Review'' \<in> set pts \<or> lit ''Systematic Review'' \<in> set pts \<or>
     lit ''Meta-Analysis'' \<in> set pts \<or> lit ''review'' \<in> set pts"
  by (simp add: is_review_def review_keywords_def)

lemma extract_if_review_scan:
  "extract_if_review block =
     (if is_review (s_publication_types (scan_block block)) \<and> s_pmid (scan_block block) \<noteq> []
      then Some \<lparr>pmid = s_pmid (scan_block block), title = s_title (scan_block block),
                 publication_types = s_publication_types (scan_block block)\<rparr>
      else None)"
  by (simp add: extract_if_review_def scan_block_def Let_def)

lemma no_pmid_line_none:
  assumes "\<forall>line \<in> set (block_lines block). \<not> is_pmid_line line"
  shows "extract_if_review block = None"
proof -
  have "s_pmid (scan_block block) = []"
    using scan_lines_pmid_kept [OF assms, of scan_init]
    by (simp add: scan_block_def scan_init_def)
  then show ?thesis by (simp add: extract_if_review_scan)
qed

lemma parse_block_appends:
  "review_articles (parse_block st block) =
     review_articles st @ (case extract_if_review block of Some r \<Rightarrow> [r] | None \<Rightarrow> [])"
proof (cases "strip block = []")
  case True
  then have "block_lines block = [[]]" by (simp add: block_lines_def split_def)
  then have "extract_if_review block = None"
    by (intro no_pmid_line_none) (simp add: is_pmid_line_def startswith_def lit_def)
  with True show ?thesis by (simp add: parse_block_def)
next
  case False
  then show ?thesis by (simp add: parse_block_def split: option.splits)
qed

lemma substring_not_keyword:
  "extract_if_review (lit ''PMID- 1'' @ [NL] @ lit ''PT  - review article'') = None"
  by (simp add: eval_defs)

text \<open>
  C1. A block is retained exactly when the identifier left by the scan is not empty and
  one of the scanned publication types is equal, as a string, to \<open>Review\<close>,
  \<open>Systematic Review\<close>, \<open>Meta-Analysis\<close> or \<open>review\<close>; the record then holds the scanned
  fields, and parsing the block appends it to the list, and appends nothing otherwise.
  A block without a \<open>PMID-\<close> line is never retained, and neither is one whose only
  publication type is \<open>review article\<close>.
\<close>

theorem retained_iff_identifier_and_review_type:
  "extract_if_review block =
     (if s_pmid (scan_block block) \<noteq> [] \<and>
         (\<exists>pt \<in> set (s_publication_types (scan_block block)).
            pt = lit ''Review'' \<or> pt = lit ''Systematic Review'' \<or>
            pt = lit ''Meta-Analysis'' \<or> pt = lit ''review'')
      then Some \<lparr>pmid = s_pmid (scan_block block), title = s_title (scan_block block),
                 publication_types = s_publication_types (scan_block block)\<rparr>
      else None) \<and>
   review_articles (parse_block st block) =
     review_articles st @ (case extract_if_review block of Some r \<Rightarrow> [r] | None \<Rightarrow> []) \<and>
   ((\<forall>line \<in> set (block_lines block). \<not> is_pmid_line line) \<longrightarrow>
      extract_if_review block = None) \<and>
   extract_if_review (lit ''PMID- 1'' @ [NL] @ lit ''PT  - review article'') = None"
proof (intro conjI impI)
  show "extract_if_review block =
     (if s_pmid (scan_block block) \<noteq> [] \<and>
         (\<exists>pt \<in> set (s_publication_types (scan_block block)).
            pt = lit ''Review'' \<or> pt = lit ''Systematic Review'' \<or>
            pt = lit ''Meta-Analysis'' \<or> pt = lit ''review'')
      then Some \<lparr>pmid = s_pmid (scan_block block), title = s_title (scan_block block),
                 publication_types = s_publication_types (scan_block block)\<rparr>
      else None)"
    unfolding extract_if_review_scan is_review_iff by auto
next
  show "review_articles (parse_block st block) =
     review_articles st @ (case extract_if_review block of Some r \<Rightarrow> [r] | None \<Rightarrow> [])"
    by (rule parse_block_appends)
next
  assume "\<forall>line \<in> set (block_lines block). \<not> is_pmid_line line"
  then show "extract_if_review block = None" by (rule no_pmid_line_none)
next
  show "extract_if_review (lit ''PMID- 1'' @ [NL] @ lit ''PT  - review article'') = None"
    by (rule substring_not_keyword)
qed

theorem retained_iff_identifier_and_review_type_witness:
  "block_lines (lit ''PT  - Review'') = [lit ''PT  - Review''] \<and>
   \<not> is_pmid_line (lit ''PT  - Review'') \<and>
   extract_if_review (lit ''PT  - Review'') = None \<and>
   extract_if_review (lit ''PMID- 7'' @ [NL] @ lit ''PT  - Review'') =
     Some \<lparr>pmid = lit ''7'', title = [], publication_types = [lit ''Review'']\<rparr>"
proof -
  have h: "\<forall>line \<in> set (block_lines (lit ''PT  - Review'')). \<not> is_pmid_line line"
    by (simp add: is_pmid_line_def eval_defs)
  have s: "scan_block (lit ''PMID- 7'' @ [NL] @ lit ''PT  - Review'') =
      \<lparr>s_pmid = lit ''7'', s_title = [], s_publication_types = [lit ''Review''],
       current_field = None, current_value = []\<rparr>"
    by (simp add: eval_defs)
  have n: "lit ''7'' \<noteq> []" by (simp add: lit_def)
  have a: "extract_if_review (lit ''PT  - Review'') = None"
    using retained_iff_identifier_and_review_type [of "lit ''PT  - Review''" init_state] h
    by blast
  have b: "extract_if_review (lit ''PMID- 7'' @ [NL] @ lit ''PT  - Review'') =
      Some \<lparr>pmid = lit ''7'', title = [], publication_types = [lit ''Review'']\<rparr>"
    using retained_iff_identifier_and_review_type
      [of "lit ''PMID- 7'' @ [NL] @ lit ''PT  - Review''" init_state] s n
    by simp
  have l: "block_lines (lit ''PT  - Review'') = [lit ''PT  - Review'']"
    by (simp add: eval_defs)
  from h l a b show ?thesis by simp
qed

section \<open>The title cursor\<close>

lemma appended_Nil [simp]: "appended_lines [] = []"
  by (simp add: appended_lines_def)

lemma appended_pmid: "is_pmid_line l \<Longrightarrow> appended_lines (l # post) = appended_lines post"
  using line_kinds_exclusive(1) [of l] by (simp add: appended_lines_def)

lemma appended_pt: "is_pt_line l \<Longrightarrow> appended_lines (l # post) = appended_lines post"
  using line_kinds_exclusive(3) [of l] by (simp add: appended_lines_def)

lemma appended_indented:
  "is_indented l \<Longrightarrow> appended_lines (l # post) = l # appended_lines post"
  by (simp add: appended_lines_def)

lemma appended_other:
  "\<not> is_pmid_line l \<Longrightarrow> \<not> is_pt_line l \<Longrightarrow> \<not> is_indented l \<Longrightarrow> appended_lines (l # post) = []"
  by (simp add: appended_lines_def)

lemma title_idle:
  "current_field s \<noteq> Some Title \<Longrightarrow> \<forall>l \<in> set post. \<not> is_ti_line l \<Longrightarrow>
   s_title (flush_last (scan_lines s post)) = s_title s"
proof (induction post arbitrary: s)
  case Nil
  then show ?case by (simp add: flush_last_def)
next
  case (Cons l post)
  from Cons.prems have nti: "\<not> is_ti_line l" and rest: "\<forall>l \<in> set post. \<not> is_ti_line l"
    by simp_all
  consider (pmid) "is_pmid_line l" | (pt) "is_pt_line l"
    | (other) "\<not> is_pmid_line l" "\<not> is_pt_line l"
    by blast
  then show ?case
  proof cases
    case pmid
    then show ?thesis using Cons.IH [OF _ rest] Cons.prems(1) by (simp add: scan_line_pmid)
  next
    case pt
    then show ?thesis using Cons.IH [OF _ rest] Cons.prems(1) by (simp add: scan_line_pt)
  next
    case other
    with nti Cons.prems(1) have
      "scan_line s l = s\<lparr>current_field := None, current_value := []\<rparr>"
      by (simp add: scan_line_other)
    then show ?thesis using Cons.IH [OF _ rest] by simp
  qed
qed

lemma title_accumulated:
  "current_field s = Some Title \<Longrightarrow> \<forall>l \<in> set post. \<not> is_ti_line l \<Longrightarrow>
   s_title (flush_last (scan_lines s post)) =
     current_value s @ concat (map (\<lambda>c. lit '' '' @ strip c) (appended_lines post))"
proof (induction post arbitrary: s)
  case Nil
  then show ?case by (simp add: flush_last_def)
next
  case (Cons l post)
  from Cons.prems have nti: "\<not> is_ti_line l" and rest: "\<forall>l \<in> set post. \<not> is_ti_line l"
    by simp_all
  consider (pmid) "is_pmid_line l" | (pt) "is_pt_line l" | (cont) "is_indented l"
    | (other) "\<not> is_pmid_line l" "\<not> is_pt_line l" "\<not> is_indented l"
    by blast
  then show ?case
  proof cases
    case pmid
    then show ?thesis
      using Cons.IH [OF _ rest] Cons.prems(1) by (simp add: scan_line_pmid appended_pmid)
  next
    case pt
    then show ?thesis
      using Cons.IH [OF _ rest] Cons.prems(1) by (simp add: scan_line_pt appended_pt)
  next
    case cont
    then show ?thesis
      using Cons.IH [OF _ rest] Cons.prems(1)
      by (simp add: scan_line_continuation appended_indented)
  next
    case other
    with nti Cons.prems(1) have
      "scan_line s l = s\<lparr>s_title := current_value s, current_field := None, current_value := []\<rparr>"
      by (simp add: scan_line_other)
    then show ?thesis using title_idle [OF _ rest] other by (simp add: appended_other)
  qed
qed

lemma title_from_last_ti:
  assumes "is_ti_line ti" and "\<forall>l \<in> set post. \<not> is_ti_line l"
  shows "s_title (flush_last (scan_lines s (pre @ [ti] @ post))) =
     strip (drop 5 ti) @ concat (map (\<lambda>c. lit '' '' @ strip c) (appended_lines post))"
  using title_accumulated [OF _ assms(2), of "scan_line (scan_lines s pre) ti"] assms(1)
  by (simp add: scan_line_ti)

lemma pmid_from_last:
  assumes "is_pmid_line p" and "\<forall>l \<in> set post. \<not> is_pmid_line l"
  shows "s_pmid (flush_last (scan_lines s (pre @ [p] @ post))) = strip (drop 5 p)"
  using scan_lines_pmid_kept [OF assms(2), of "scan_line (scan_lines s pre) p"] assms(1)
  by (simp add: scan_line_pmid)

section \<open>Publication type lines\<close>

text \<open>
  C2, as the code has it. A line beginning with \<open>PT  -\<close> appends exactly one entry, the
  text after the first \<open>-\<close>, trimmed, to the publication types and changes nothing else:
  the title cursor and the title read so far stay as they were. An indented line right
  after it is therefore appended to the title when the cursor was in the title before
  the \<open>PT  -\<close> line, and ends an idle cursor otherwise.
\<close>

theorem pt_line_appends_and_keeps_cursor:
  "is_pt_line line \<longrightarrow>
     split1 DASH line ! 1 = drop 5 line \<and>
     scan_line s line =
       s\<lparr>s_publication_types := s_publication_types s @ [strip (drop 5 line)]\<rparr> \<and>
     (is_indented c \<longrightarrow>
        scan_line (scan_line s line) c =
          (if current_field s = Some Title
           then (scan_line s line)\<lparr>current_value := current_value s @ lit '' '' @ strip c\<rparr>
           else (scan_line s line)\<lparr>current_field := None, current_value := []\<rparr>))"
proof (intro impI conjI)
  assume pt: "is_pt_line line"
  then show "split1 DASH line ! 1 = drop 5 line"
    using field_text_pt [of line] by (simp add: is_pt_line_def)
  from pt show step: "scan_line s line =
      s\<lparr>s_publication_types := s_publication_types s @ [strip (drop 5 line)]\<rparr>"
    by (rule scan_line_pt)
  assume ind: "is_indented c"
  show "scan_line (scan_line s line) c =
      (if current_field s = Some Title
       then (scan_line s line)\<lparr>current_value := current_value s @ lit '' '' @ strip c\<rparr>
       else (scan_line s line)\<lparr>current_field := None, current_value := []\<rparr>)"
  proof (cases "current_field s = Some Title")
    case True
    then have "current_field (scan_line s line) = Some Title" by (simp add: step)
    from scan_line_continuation [OF ind this] True show ?thesis by (simp add: step)
  next
    case False
    then have idle: "current_field (scan_line s line) \<noteq> Some Title" by (simp add: step)
    from line_kinds_exclusive(4) [OF ind] have
      "\<not> is_pmid_line c" "\<not> is_ti_line c" "\<not> is_pt_line c" by simp_all
    from scan_line_other [OF this, of "scan_line s line"] idle False
    show ?thesis by simp
  qed
qed

theorem pt_line_appends_and_keeps_cursor_witness:
  "is_pt_line (lit ''PT  - Review'') \<and> is_indented (lit ''      B'') \<and>
   scan_line (scan_line \<lparr>s_pmid = [], s_title = [], s_publication_types = [],
        current_field = Some Title, current_value = lit ''A''\<rparr> (lit ''PT  - Review''))
      (lit ''      B'') =
     \<lparr>s_pmid = [], s_title = [], s_publication_types = [lit ''Review''],
      current_field = Some Title, current_value = lit ''A B''\<rparr>"
proof -
  have pt: "is_pt_line (lit ''PT  - Review'')"
    by (simp add: is_pt_line_def startswith_def lit_def)
  have ind: "is_indented (lit ''      B'')"
    by (simp add: is_indented_def startswith_def lit_def)
  have v: "strip (drop 5 (lit ''PT  - Review'')) = lit ''Review''"
    "strip (lit ''      B'') = lit ''B''" "lit ''A'' @ lit '' '' @ lit ''B'' = lit ''A B''"
    by (simp_all add: strip_def isspace_def lit_def)
  let ?s = "\<lparr>s_pmid = [], s_title = [], s_publication_types = [],
      current_field = Some Title, current_value = lit ''A''\<rparr>"
  from pt_line_appends_and_keeps_cursor [of "lit ''PT  - Review''" ?s "lit ''      B''"] pt ind
  have a: "scan_line ?s (lit ''PT  - Review'') =
      ?s\<lparr>s_publication_types := s_publication_types ?s @ [strip (drop 5 (lit ''PT  - Review''))]\<rparr>"
    and b: "scan_line (scan_line ?s (lit ''PT  - Review'')) (lit ''      B'') =
      (if current_field ?s = Some Title
       then (scan_line ?s (lit ''PT  - Review''))
              \<lparr>current_value := current_value ?s @ lit '' '' @ strip (lit ''      B'')\<rparr>
       else (scan_line ?s (lit ''PT  - Review''))\<lparr>current_field := None, current_value := []\<rparr>)"
    by blast+
  have "scan_line (scan_line ?s (lit ''PT  - Review'')) (lit ''      B'') =
     \<lparr>s_pmid = [], s_title = [], s_publication_types = [lit ''Review''],
      current_field = Some Title, current_value = lit ''A B''\<rparr>"
    unfolding b unfolding a by (simp add: v)
  with pt ind show ?thesis by simp
qed

text \<open>
  The claim as it is written says that the indented line after the \<open>PT  -\<close> line is not
  appended to the title. In this block it is: the title is \<open>A B\<close>.
\<close>

theorem pt_line_ends_cursor_counterexample:
  "extract_if_review
     (lit ''PMID- 1'' @ [NL] @ lit ''TI  - A'' @ [NL] @ lit ''PT  - Review'' @ [NL] @
      lit ''      B'') =
   Some \<lparr>pmid = lit ''1'', title = lit ''A B'', publication_types = [lit ''Review'']\<rparr>"
  by (simp add: eval_defs)

section \<open>Title continuation and the last occurrence\<close>

lemma example_block_record: "extract_if_review example_block = Some example_record"
  by (simp add: example_block_def example_record_def eval_defs)

lemma dec_digit: "n < 10 \<Longrightarrow> dec n = [48 + n]"
  by (simp add: dec.simps)

lemmas export_defs = export_for_webapp_def export_text_def export_header_def export_line_def
  encodable_def print_def unlines_def

text \<open>
  C3, as the code has it. When the last \<open>TI  -\<close> line of a block is followed by an
  indented line, the title of the record is the trimmed text of the first, one space
  and the trimmed second line, followed by every further line that the loop appends:
  each indented line before the first later line that is neither a \<open>PMID-\<close> line, a
  \<open>PT  -\<close> line nor indented, also one that comes after a \<open>PMID-\<close> or \<open>PT  -\<close>
  line. With no such further line the title is the two parts and the space between
  them. The example block yields the record of the specification, and an
  identifier-only export of it writes the header, an empty line and the line
  \<open>12345\<close>.
\<close>

theorem title_with_one_continuation:
  "(block_lines block = pre @ [ti, c] @ post \<and> is_ti_line ti \<and> is_indented c \<and>
    (\<forall>l \<in> set post. \<not> is_ti_line l) \<longrightarrow>
      extract_if_review block =
        (if is_review (s_publication_types (scan_block block)) \<and> s_pmid (scan_block block) \<noteq> []
         then Some \<lparr>pmid = s_pmid (scan_block block),
                    title = strip (drop 5 ti) @ lit '' '' @ strip c @
                      concat (map (\<lambda>l. lit '' '' @ strip l) (appended_lines post)),
                    publication_types = s_publication_types (scan_block block)\<rparr>
         else None)) \<and>
   extract_if_review example_block =
     Some \<lparr>pmid = lit ''12345'', title = lit ''A Study of Widgets'',
           publication_types = [lit ''Review'']\<rparr> \<and>
   export_for_webapp (\<lambda>_. True) out (lit ''pmid'') (parse_block init_state example_block) =
     Inr \<lparr>review_articles =
            [\<lparr>pmid = lit ''12345'', title = lit ''A Study of Widgets'',
              publication_types = [lit ''Review'']\<rparr>],
          stdout = [lit ''Exported 1 review articles to '' @ out],
          written =
            [(out, unlines [lit ''# Review articles exclusion list'',
                lit ''# Generated automatically from MEDLINE publication types'',
                lit ''# Total reviews found: 1'', lit ''# Format: PMID per line'', [],
                lit ''12345''])]\<rparr>"
proof (intro conjI impI)
  assume h: "block_lines block = pre @ [ti, c] @ post \<and> is_ti_line ti \<and> is_indented c \<and>
    (\<forall>l \<in> set post. \<not> is_ti_line l)"
  then have lines: "block_lines block = pre @ [ti] @ (c # post)"
    and ti: "is_ti_line ti" and c: "is_indented c"
    by simp_all
  from h c have rest: "\<forall>l \<in> set (c # post). \<not> is_ti_line l"
    using line_kinds_exclusive(4) [of c] by simp
  have "s_title (scan_block block) =
      strip (drop 5 ti) @ lit '' '' @ strip c @
      concat (map (\<lambda>l. lit '' '' @ strip l) (appended_lines post))"
    unfolding scan_block_def lines title_from_last_ti [OF ti rest]
    by (simp add: appended_indented [OF c])
  then show "extract_if_review block =
      (if is_review (s_publication_types (scan_block block)) \<and> s_pmid (scan_block block) \<noteq> []
       then Some \<lparr>pmid = s_pmid (scan_block block),
                  title = strip (drop 5 ti) @ lit '' '' @ strip c @
                    concat (map (\<lambda>l. lit '' '' @ strip l) (appended_lines post)),
                  publication_types = s_publication_types (scan_block block)\<rparr>
       else None)"
    by (simp add: extract_if_review_scan)
next
  show r: "extract_if_review example_block =
     Some \<lparr>pmid = lit ''12345'', title = lit ''A Study of Widgets'',
           publication_types = [lit ''Review'']\<rparr>"
    using example_block_record by (simp add: example_record_def)
  have "strip example_block \<noteq> []"
    by (simp add: example_block_def eval_defs)
  then have "parse_block init_state example_block =
      \<lparr>review_articles =
         [\<lparr>pmid = lit ''12345'', title = lit ''A Study of Widgets'',
           publication_types = [lit ''Review'']\<rparr>],
       stdout = [], written = []\<rparr>"
    by (simp add: parse_block_def r init_state_def)
  then show "export_for_webapp (\<lambda>_. True) out (lit ''pmid'')
      (parse_block init_state example_block) =
     Inr \<lparr>review_articles =
            [\<lparr>pmid = lit ''12345'', title = lit ''A Study of Widgets'',
              publication_types = [lit ''Review'']\<rparr>],
          stdout = [lit ''Exported 1 review articles to '' @ out],
          written =
            [(out, unlines [lit ''# Review articles exclusion list'',
                lit ''# Generated automatically from MEDLINE publication types'',
                lit ''# Total reviews found: 1'', lit ''# Format: PMID per line'', [],
                lit ''12345''])]\<rparr>"
    by (simp add: export_defs dec_digit lit_def NL_def)
qed

theorem title_with_one_continuation_witness:
  "block_lines example_block =
     [lit ''PMID- 12345''] @ [lit ''TI  - A Study of'', lit ''      Widgets''] @
     [lit ''PT  - Review''] \<and>
   is_ti_line (lit ''TI  - A Study of'') \<and> is_indented (lit ''      Widgets'') \<and>
   \<not> is_ti_line (lit ''PT  - Review'') \<and> appended_lines [lit ''PT  - Review''] = [] \<and>
   strip (drop 5 (lit ''TI  - A Study of'')) @ lit '' '' @ strip (lit ''      Widgets'') =
     lit ''A Study of Widgets'' \<and>
   extract_if_review example_block =
     Some \<lparr>pmid = lit ''12345'', title = lit ''A Study of Widgets'',
           publication_types = [lit ''Review'']\<rparr>"
proof -
  have l: "block_lines example_block =
     [lit ''PMID- 12345''] @ [lit ''TI  - A Study of'', lit ''      Widgets''] @
     [lit ''PT  - Review'']"
    by (simp add: example_block_def eval_defs)
  have ti: "is_ti_line (lit ''TI  - A Study of'')"
    by (simp add: is_ti_line_def startswith_def lit_def)
  have c: "is_indented (lit ''      Widgets'')"
    by (simp add: is_indented_def startswith_def lit_def)
  have pt: "is_pt_line (lit ''PT  - Review'')"
    by (simp add: is_pt_line_def startswith_def lit_def)
  have nti: "\<forall>l \<in> set [lit ''PT  - Review'']. \<not> is_ti_line l"
    using line_kinds_exclusive(3) [OF pt] by simp
  have none: "appended_lines [lit ''PT  - Review''] = []"
    by (simp add: appended_pt [OF pt])
  have v: "strip (drop 5 (lit ''TI  - A Study of'')) @ lit '' '' @ strip (lit ''      Widgets'') =
      lit ''A Study of Widgets''"
    by (simp add: strip_def isspace_def lit_def)
  have s: "s_pmid (scan_block example_block) = lit ''12345''"
    "s_publication_types (scan_block example_block) = [lit ''Review'']"
    by (simp_all add: example_block_def eval_defs)
  have rv: "is_review [lit ''Review'']"
    by (simp add: is_review_iff)
  have ne: "lit ''12345'' \<noteq> []"
    by (simp add: lit_def)
  from title_with_one_continuation
      [of example_block "[lit ''PMID- 12345'']" "lit ''TI  - A Study of''"
          "lit ''      Widgets''" "[lit ''PT  - Review'']"]
    l ti c nti
  have "extract_if_review example_block =
      (if is_review (s_publication_types (scan_block example_block)) \<and>
          s_pmid (scan_block example_block) \<noteq> []
       then Some \<lparr>pmid = s_pmid (scan_block example_block),
                  title = strip (drop 5 (lit ''TI  - A Study of'')) @ lit '' '' @
                    strip (lit ''      Widgets'') @
                    concat (map (\<lambda>l. lit '' '' @ strip l) (appended_lines [lit ''PT  - Review''])),
                  publication_types = s_publication_types (scan_block example_block)\<rparr>
       else None)"
    by blast
  then have "extract_if_review example_block =
     Some \<lparr>pmid = lit ''12345'', title = lit ''A Study of Widgets'',
           publication_types = [lit ''Review'']\<rparr>"
    unfolding s none using rv ne v by simp
  with l ti c nti none v show ?thesis by simp
qed

text \<open>
  The claim as it is written gives the title \<open>A B\<close> to this block, whose \<open>TI  -\<close> line
  is followed by one continuation line. The indented line after the \<open>PT  -\<close> line is
  appended as well: the title is \<open>A B C\<close>.
\<close>

theorem title_with_one_continuation_counterexample:
  "block_lines trailing_block =
     [lit ''PMID- 1'', lit ''TI  - A'', lit ''      B'', lit ''PT  - Review'', lit ''      C''] \<and>
   extract_if_review trailing_block =
     Some \<lparr>pmid = lit ''1'', title = lit ''A B C'', publication_types = [lit ''Review'']\<rparr> \<and>
   lit ''A B C'' \<noteq> strip (drop 5 (lit ''TI  - A'')) @ lit '' '' @ strip (lit ''      B'')"
  by (simp add: trailing_block_def eval_defs)

text \<open>
  C6, as the code has it. The identifier of the record is the trimmed text of the last
  \<open>PMID-\<close> line. A \<open>TI  -\<close> line sets the accumulated value to its own trimmed text,
  whatever had been accumulated, so nothing of an earlier title is kept. The title of
  the record is the trimmed text of the last \<open>TI  -\<close> line followed, each after one
  space, by every indented line after it up to the first line that is neither a
  \<open>PMID-\<close> line, a \<open>PT  -\<close> line nor indented: the lines right after the \<open>TI  -\<close>
  line and also the indented lines that come after a later \<open>PMID-\<close> or \<open>PT  -\<close> line.
\<close>

theorem last_identifier_and_title_win:
  "(block_lines block = pre @ [p] @ post \<and> is_pmid_line p \<and>
    (\<forall>l \<in> set post. \<not> is_pmid_line l) \<longrightarrow>
      extract_if_review block =
        (if is_review (s_publication_types (scan_block block)) \<and> strip (drop 5 p) \<noteq> []
         then Some \<lparr>pmid = strip (drop 5 p), title = s_title (scan_block block),
                    publication_types = s_publication_types (scan_block block)\<rparr>
         else None)) \<and>
   (is_ti_line ti \<longrightarrow>
      current_field (scan_line s ti) = Some Title \<and>
      current_value (scan_line s ti) = strip (drop 5 ti)) \<and>
   (block_lines block = pre' @ [ti] @ post' \<and> is_ti_line ti \<and>
    (\<forall>l \<in> set post'. \<not> is_ti_line l) \<longrightarrow>
      extract_if_review block =
        (if is_review (s_publication_types (scan_block block)) \<and> s_pmid (scan_block block) \<noteq> []
         then Some \<lparr>pmid = s_pmid (scan_block block),
                    title = strip (drop 5 ti) @
                      concat (map (\<lambda>c. lit '' '' @ strip c) (appended_lines post')),
                    publication_types = s_publication_types (scan_block block)\<rparr>
         else None))"
proof (intro conjI impI)
  assume "block_lines block = pre @ [p] @ post \<and> is_pmid_line p \<and>
    (\<forall>l \<in> set post. \<not> is_pmid_line l)"
  then have "s_pmid (scan_block block) = strip (drop 5 p)"
    unfolding scan_block_def using pmid_from_last [of p post scan_init pre] by simp
  then show "extract_if_review block =
      (if is_review (s_publication_types (scan_block block)) \<and> strip (drop 5 p) \<noteq> []
       then Some \<lparr>pmid = strip (drop 5 p), title = s_title (scan_block block),
                  publication_types = s_publication_types (scan_block block)\<rparr>
       else None)"
    by (simp add: extract_if_review_scan)
next
  assume "is_ti_line ti"
  then show "current_field (scan_line s ti) = Some Title"
    and "current_value (scan_line s ti) = strip (drop 5 ti)"
    by (simp_all add: scan_line_ti)
next
  assume "block_lines block = pre' @ [ti] @ post' \<and> is_ti_line ti \<and>
    (\<forall>l \<in> set post'. \<not> is_ti_line l)"
  then have "s_title (scan_block block) =
      strip (drop 5 ti) @ concat (map (\<lambda>c. lit '' '' @ strip c) (appended_lines post'))"
    unfolding scan_block_def using title_from_last_ti [of ti post' scan_init pre'] by simp
  then show "extract_if_review block =
      (if is_review (s_publication_types (scan_block block)) \<and> s_pmid (scan_block block) \<noteq> []
       then Some \<lparr>pmid = s_pmid (scan_block block),
                  title = strip (drop 5 ti) @
                    concat (map (\<lambda>c. lit '' '' @ strip c) (appended_lines post')),
                  publication_types = s_publication_types (scan_block block)\<rparr>
       else None)"
    by (simp add: extract_if_review_scan)
qed

theorem last_identifier_and_title_win_witness:
  "block_lines repeated_block =
     [lit ''PMID- 1'', lit ''PMID- 2'', lit ''TI  - Old'', lit ''      more'',
      lit ''TI  - New'', lit ''      title'', lit ''PT  - Review''] \<and>
   is_pmid_line (lit ''PMID- 2'') \<and> is_ti_line (lit ''TI  - New'') \<and>
   appended_lines [lit ''      title'', lit ''PT  - Review''] = [lit ''      title''] \<and>
   pmid (the (extract_if_review repeated_block)) = lit ''2'' \<and>
   extract_if_review repeated_block =
     Some \<lparr>pmid = lit ''2'', title = lit ''New title'', publication_types = [lit ''Review'']\<rparr> \<and>
   current_value (scan_line
      \<lparr>s_pmid = [], s_title = [], s_publication_types = [], current_field = Some Title,
       current_value = lit ''Old more''\<rparr> (lit ''TI  - New'')) = lit ''New''"
proof -
  let ?post = "[lit ''TI  - Old'', lit ''      more'', lit ''TI  - New'', lit ''      title'',
      lit ''PT  - Review'']"
  let ?tail = "[lit ''      title'', lit ''PT  - Review'']"
  let ?s = "\<lparr>s_pmid = [], s_title = [], s_publication_types = [], current_field = Some Title,
       current_value = lit ''Old more''\<rparr>"
  have l: "block_lines repeated_block =
     [lit ''PMID- 1'', lit ''PMID- 2'', lit ''TI  - Old'', lit ''      more'',
      lit ''TI  - New'', lit ''      title'', lit ''PT  - Review'']"
    by (simp add: repeated_block_def eval_defs)
  have l1: "block_lines repeated_block = [lit ''PMID- 1''] @ [lit ''PMID- 2''] @ ?post"
    and l2: "block_lines repeated_block =
      [lit ''PMID- 1'', lit ''PMID- 2'', lit ''TI  - Old'', lit ''      more''] @
      [lit ''TI  - New''] @ ?tail"
    by (simp_all add: l)
  have p: "is_pmid_line (lit ''PMID- 2'')"
    by (simp add: is_pmid_line_def startswith_def lit_def)
  have ti: "is_ti_line (lit ''TI  - New'')"
    by (simp add: is_ti_line_def startswith_def lit_def)
  have np: "\<forall>l \<in> set ?post. \<not> is_pmid_line l"
    by (simp add: is_pmid_line_def startswith_def lit_def)
  have nti: "\<forall>l \<in> set ?tail. \<not> is_ti_line l"
    by (simp add: is_ti_line_def startswith_def lit_def)
  have conts: "appended_lines ?tail = [lit ''      title'']"
    by (simp add: appended_lines_def is_pmid_line_def is_pt_line_def is_indented_def
        startswith_def lit_def)
  have v: "strip (drop 5 (lit ''PMID- 2'')) = lit ''2''"
    "strip (drop 5 (lit ''TI  - New'')) = lit ''New''"
    "lit ''New'' @ lit '' '' @ strip (lit ''      title'') = lit ''New title''"
    by (simp_all add: strip_def isspace_def lit_def)
  have s: "s_pmid (scan_block repeated_block) = lit ''2''"
    "s_publication_types (scan_block repeated_block) = [lit ''Review'']"
    by (simp_all add: repeated_block_def eval_defs)
  have rv: "is_review [lit ''Review'']"
    by (simp add: is_review_iff)
  have ne: "lit ''2'' \<noteq> []"
    by (simp add: lit_def)
  note inst = last_identifier_and_title_win
    [of repeated_block "[lit ''PMID- 1'']" "lit ''PMID- 2''" "?post" "lit ''TI  - New''" "?s"
        "[lit ''PMID- 1'', lit ''PMID- 2'', lit ''TI  - Old'', lit ''      more'']" "?tail"]
  from inst l1 p np have "extract_if_review repeated_block =
      (if is_review (s_publication_types (scan_block repeated_block)) \<and>
          strip (drop 5 (lit ''PMID- 2'')) \<noteq> []
       then Some \<lparr>pmid = strip (drop 5 (lit ''PMID- 2'')),
                  title = s_title (scan_block repeated_block),
                  publication_types = s_publication_types (scan_block repeated_block)\<rparr>
       else None)"
    by blast
  then have a: "pmid (the (extract_if_review repeated_block)) = lit ''2''"
    unfolding s v using rv ne by simp
  from inst ti have b: "current_value (scan_line ?s (lit ''TI  - New'')) = lit ''New''"
    unfolding v(2) [symmetric] by blast
  from inst l2 ti nti have "extract_if_review repeated_block =
      (if is_review (s_publication_types (scan_block repeated_block)) \<and>
          s_pmid (scan_block repeated_block) \<noteq> []
       then Some \<lparr>pmid = s_pmid (scan_block repeated_block),
                  title = strip (drop 5 (lit ''TI  - New'')) @
                    concat (map (\<lambda>c. lit '' '' @ strip c) (appended_lines ?tail)),
                  publication_types = s_publication_types (scan_block repeated_block)\<rparr>
       else None)"
    by blast
  then have c: "extract_if_review repeated_block =
     Some \<lparr>pmid = lit ''2'', title = lit ''New title'', publication_types = [lit ''Review'']\<rparr>"
    unfolding s conts using rv ne v by simp
  from l p ti conts a b c show ?thesis by simp
qed

text \<open>
  The claim as it is written takes the title of this block from the last \<open>TI  -\<close> line
  and its own continuation lines, of which there is none. The indented lines after the
  \<open>PT  -\<close> line and after the second \<open>PMID-\<close> line are appended to it.
\<close>

theorem last_identifier_and_title_win_counterexample:
  "block_lines interleaved_block =
     [lit ''PMID- 1'', lit ''TI  - Old'', lit ''TI  - New'', lit ''PT  - Review'',
      lit ''      of the type'', lit ''PMID- 2'', lit ''      tail''] \<and>
   extract_if_review interleaved_block =
     Some \<lparr>pmid = lit ''2'', title = lit ''New of the type tail'',
           publication_types = [lit ''Review'']\<rparr> \<and>
   lit ''New of the type tail'' \<noteq> strip (drop 5 (lit ''TI  - New''))"
  by (simp add: interleaved_block_def eval_defs)

section \<open>Fields of a retained record hold no newline\<close>

lemma lit_no_newline [simp]: "NL \<notin> set (lit '' '')"
  by (simp add: lit_def NL_def)

lemma strip_no_newline: "NL \<notin> set l \<Longrightarrow> NL \<notin> set (strip l)"
  using strip_subset [of l] by blast

lemma strip_drop_no_newline: "NL \<notin> set l \<Longrightarrow> NL \<notin> set (strip (drop n l))"
  using strip_subset [of "drop n l"] set_drop_subset [of n l] by blast

lemma scan_line_newline_free:
  assumes "newline_free s" and "NL \<notin> set line"
  shows "newline_free (scan_line s line)"
proof -
  consider (pmid) "is_pmid_line line" | (ti) "is_ti_line line" | (pt) "is_pt_line line"
    | (cont) "is_indented line" "current_field s = Some Title"
    | (other) "\<not> is_pmid_line line" "\<not> is_ti_line line" "\<not> is_pt_line line"
        "\<not> (is_indented line \<and> current_field s = Some Title)"
    by blast
  then show ?thesis
  proof cases
    case pmid
    with assms show ?thesis
      by (simp add: scan_line_pmid newline_free_def strip_drop_no_newline)
  next
    case ti
    with assms show ?thesis
      by (simp add: scan_line_ti newline_free_def strip_drop_no_newline)
  next
    case pt
    with assms show ?thesis by (simp add: scan_line_pt newline_free_def)
  next
    case cont
    with assms show ?thesis
      by (simp add: scan_line_continuation newline_free_def strip_no_newline)
  next
    case other
    with assms show ?thesis by (simp add: scan_line_other newline_free_def)
  qed
qed

lemma scan_lines_newline_free:
  "newline_free s \<Longrightarrow> \<forall>l \<in> set lines. NL \<notin> set l \<Longrightarrow> newline_free (scan_lines s lines)"
  by (induction lines arbitrary: s) (simp_all add: scan_line_newline_free)

lemma scan_block_newline_free: "newline_free (scan_block block)"
proof -
  have "newline_free scan_init" by (simp add: newline_free_def scan_init_def)
  moreover have "\<forall>l \<in> set (block_lines block). NL \<notin> set l"
    using block_lines_no_newline by blast
  ultimately have "newline_free (scan_lines scan_init (block_lines block))"
    by (rule scan_lines_newline_free)
  then show ?thesis by (simp add: scan_block_def flush_last_def newline_free_def)
qed

lemma retained_fields_no_newline:
  assumes "extract_if_review block = Some a"
  shows "NL \<notin> set (pmid a) \<and> NL \<notin> set (title a)"
proof -
  from assms have "pmid a = s_pmid (scan_block block)" "title a = s_title (scan_block block)"
    by (auto simp: extract_if_review_scan split: if_splits)
  with scan_block_newline_free [of block] show ?thesis by (simp add: newline_free_def)
qed

section \<open>The exported file\<close>

lemma export_header_lines: "export_header n = unlines (header_lines n @ [[]])"
  by (simp add: export_header_def header_lines_def unlines_def)

lemma export_line_recognized:
  "recognized format_type \<Longrightarrow> export_line format_type a = data_line format_type a @ [NL]"
  by (auto simp: recognized_def export_line_def data_line_def)

lemma export_text_lines:
  assumes "recognized format_type"
  shows "export_text format_type articles =
     unlines (header_lines (length articles) @ [[]] @ map (data_line format_type) articles)"
proof -
  have "concat (map (export_line format_type) articles) =
      unlines (map (data_line format_type) articles)"
    by (induction articles) (simp_all add: unlines_def export_line_recognized [OF assms])
  then show ?thesis
    by (simp add: export_text_def export_header_lines unlines_def)
qed

lemma header_lines_no_newline: "l \<in> set (header_lines n) \<Longrightarrow> NL \<notin> set l"
proof -
  assume "l \<in> set (header_lines n)"
  then consider "l = lit ''# Review articles exclusion list''"
    | "l = lit ''# Generated automatically from MEDLINE publication types''"
    | "l = lit ''# Total reviews found: '' @ dec n"
    | "l = lit ''# Format: PMID per line''"
    by (auto simp: header_lines_def)
  then show ?thesis
  proof cases
    case 3
    then show ?thesis using dec_no_newline [of n] by (simp add: lit_def NL_def)
  qed (simp_all add: lit_def NL_def)
qed

lemma header_lines_marked: "l \<in> set (header_lines n) \<Longrightarrow> startswith l (lit ''#'')"
proof -
  assume "l \<in> set (header_lines n)"
  then consider "l = lit ''# Review articles exclusion list''"
    | "l = lit ''# Generated automatically from MEDLINE publication types''"
    | "l = lit ''# Total reviews found: '' @ dec n"
    | "l = lit ''# Format: PMID per line''"
    by (auto simp: header_lines_def)
  then show ?thesis
    by cases (simp_all add: lit_def startswith_def)
qed

lemma data_line_no_newline:
  assumes "NL \<notin> set (pmid a)" and "NL \<notin> set (title a)"
  shows "NL \<notin> set (data_line format_type a)"
proof -
  have "NL \<notin> set (take 80 (title a))"
    using assms(2) set_take_subset [of 80 "title a"] by blast
  with assms show ?thesis by (simp add: data_line_def lit_def NL_def)
qed

lemma encodable_append [simp]: "encodable (xs @ ys) \<longleftrightarrow> encodable xs \<and> encodable ys"
  by (simp add: encodable_def)

lemma encodable_dec: "encodable (dec n)"
  using dec_digits [of n] by (auto simp: encodable_def list_all_iff)

lemma encodable_header: "encodable (export_header n)"
  using encodable_dec [of n] by (simp add: export_header_def) (simp add: encodable_def lit_def NL_def)

text \<open>
  C4, as the code has it. With a recognized format the file written holds the four
  header lines, each starting with \<open>#\<close>, the third with the number of records in
  decimal, then one empty line, then one line for each record in the order of the list,
  and nothing else. The line of a record taken from a block holds no newline, so it is
  one line.
\<close>

theorem exported_file_layout:
  "recognized format_type \<longrightarrow>
     (export_for_webapp writable filename format_type st = Inr st' \<longrightarrow>
        written st' = written st @
          [(filename,
            unlines (header_lines (length (review_articles st)) @ [[]] @
                     map (data_line format_type) (review_articles st)))]) \<and>
     export_text format_type articles =
       unlines (header_lines (length articles) @ [[]] @ map (data_line format_type) articles) \<and>
     length (header_lines n) = 4 \<and>
     (\<forall>h \<in> set (header_lines n). startswith h (lit ''#'') \<and> NL \<notin> set h) \<and>
     header_lines n ! 2 = lit ''# Total reviews found: '' @ dec n \<and>
     (extract_if_review block = Some r \<longrightarrow> NL \<notin> set (data_line format_type r))"
proof (intro impI conjI ballI)
  assume rec: "recognized format_type"
  show "export_text format_type articles =
      unlines (header_lines (length articles) @ [[]] @ map (data_line format_type) articles)"
    by (rule export_text_lines [OF rec])
  assume "export_for_webapp writable filename format_type st = Inr st'"
  then have "written st' = written st @
      [(filename, export_text format_type (review_articles st))]"
    by (auto simp: export_for_webapp_def print_def split: if_splits)
  then show "written st' = written st @
      [(filename,
        unlines (header_lines (length (review_articles st)) @ [[]] @
                 map (data_line format_type) (review_articles st)))]"
    by (simp add: export_text_lines [OF rec])
next
  show "length (header_lines n) = 4"
    by (simp add: header_lines_def)
  show "header_lines n ! 2 = lit ''# Total reviews found: '' @ dec n"
    by (simp add: header_lines_def)
next
  fix h
  assume "h \<in> set (header_lines n)"
  then show "startswith h (lit ''#'')" and "NL \<notin> set h"
    by (rule header_lines_marked, rule header_lines_no_newline)
next
  assume "extract_if_review block = Some r"
  from retained_fields_no_newline [OF this] show "NL \<notin> set (data_line format_type r)"
    by (simp add: data_line_no_newline)
qed

theorem exported_file_layout_witness:
  "recognized (lit ''title'') \<and>
   export_for_webapp (\<lambda>_. True) (lit ''out.txt'') (lit ''title'')
       \<lparr>review_articles = [example_record, long_record], stdout = [], written = []\<rparr> =
     Inr \<lparr>review_articles = [example_record, long_record],
          stdout = [lit ''Exported 2 review articles to out.txt''],
          written = [(lit ''out.txt'',
            unlines [lit ''# Review articles exclusion list'',
              lit ''# Generated automatically from MEDLINE publication types'',
              lit ''# Total reviews found: 2'', lit ''# Format: PMID per line'', [],
              lit ''A Study of Widgets'', long_title])]\<rparr> \<and>
   extract_if_review long_block = Some long_record \<and>
   NL \<notin> set (data_line (lit ''title'') long_record) \<and>
   unlines (header_lines 2 @ [[]] @ map (data_line (lit ''title'')) [example_record, long_record]) =
     unlines [lit ''# Review articles exclusion list'',
       lit ''# Generated automatically from MEDLINE publication types'',
       lit ''# Total reviews found: 2'', lit ''# Format: PMID per line'', [],
       lit ''A Study of Widgets'', long_title]"
proof -
  let ?st = "\<lparr>review_articles = [example_record, long_record], stdout = [], written = []\<rparr>"
  let ?text = "unlines [lit ''# Review articles exclusion list'',
      lit ''# Generated automatically from MEDLINE publication types'',
      lit ''# Total reviews found: 2'', lit ''# Format: PMID per line'', [],
      lit ''A Study of Widgets'', long_title]"
  let ?st' = "\<lparr>review_articles = [example_record, long_record],
      stdout = [lit ''Exported 2 review articles to out.txt''],
      written = [(lit ''out.txt'', ?text)]\<rparr>"
  have rec: "recognized (lit ''title'')"
    by (simp add: recognized_def)
  have e: "export_for_webapp (\<lambda>_. True) (lit ''out.txt'') (lit ''title'') ?st = Inr ?st'"
    by (simp add: export_defs dec_digit example_record_def long_record_def long_title_def
        lit_def NL_def)
  have r: "extract_if_review long_block = Some long_record"
    by (simp add: long_block_def long_record_def long_title_def eval_defs)
  note inst = exported_file_layout
    [of "lit ''title''" "\<lambda>_. True" "lit ''out.txt''" ?st ?st' "[example_record, long_record]"
        2 long_block long_record]
  from inst rec e have w: "written ?st' = written ?st @
      [(lit ''out.txt'',
        unlines (header_lines (length (review_articles ?st)) @ [[]] @
                 map (data_line (lit ''title'')) (review_articles ?st)))]"
    by blast
  from inst rec r have n: "NL \<notin> set (data_line (lit ''title'') long_record)"
    by blast
  from w have t: "unlines (header_lines 2 @ [[]] @
      map (data_line (lit ''title'')) [example_record, long_record]) = ?text"
    by (simp add: numeral_2_eq_2)
  from rec e r n t show ?thesis by simp
qed

text \<open>
  The claim as it is written has the data lines right after the four header lines and
  nothing else in the file. The file of one record has six lines: the fifth is empty.
\<close>

theorem exported_file_layout_counterexample:
  "export_for_webapp (\<lambda>_. True) (lit ''out.txt'') (lit ''pmid'')
       \<lparr>review_articles = [example_record], stdout = [], written = []\<rparr> =
     Inr \<lparr>review_articles = [example_record],
          stdout = [lit ''Exported 1 review articles to out.txt''],
          written = [(lit ''out.txt'', unlines (header_lines 1 @ [[], lit ''12345'']))]\<rparr> \<and>
   unlines (header_lines 1 @ [[], lit ''12345'']) \<noteq> unlines (header_lines 1 @ [lit ''12345'']) \<and>
   length (header_lines 1 @ [[], lit ''12345'']) = 6"
  by (simp add: export_defs header_lines_def dec_digit example_record_def lit_def NL_def)

text \<open>
  C5. In the format \<open>pmid_with_title\<close> the file holds, after the header, one line for
  each record: \<open>PMID-\<close>, the identifier, \<open> # \<close> and the title, cut to its first 80
  characters and followed by \<open>...\<close> when it is longer than 80 characters, in full and
  with no mark otherwise. The line of a record taken from a block holds no newline. A
  title of 90 characters is written as its first 80 characters and \<open>...\<close>.
\<close>

theorem identifier_with_title_line:
  "export_line (lit ''pmid_with_title'') r =
     lit ''PMID-'' @ pmid r @ lit '' # '' @
     (if length (title r) > 80 then take 80 (title r) @ lit ''...'' else title r) @ [NL] \<and>
   (export_for_webapp writable filename (lit ''pmid_with_title'') st = Inr st' \<longrightarrow>
      written st' = written st @
        [(filename,
          unlines (header_lines (length (review_articles st)) @ [[]] @
            map (\<lambda>r. lit ''PMID-'' @ pmid r @ lit '' # '' @
                   (if length (title r) > 80 then take 80 (title r) @ lit ''...'' else title r))
              (review_articles st)))]) \<and>
   (extract_if_review block = Some r \<longrightarrow>
      NL \<notin> set (lit ''PMID-'' @ pmid r @ lit '' # '' @
        (if length (title r) > 80 then take 80 (title r) @ lit ''...'' else title r))) \<and>
   (length (title r) = 90 \<longrightarrow>
      export_line (lit ''pmid_with_title'') r =
        lit ''PMID-'' @ pmid r @ lit '' # '' @ take 80 (title r) @ lit ''...'' @ [NL])"
proof (intro conjI impI)
  have rec: "recognized (lit ''pmid_with_title'')"
    by (simp add: recognized_def)
  have ne: "lit ''pmid_with_title'' \<noteq> lit ''pmid''"
    by (simp add: lit_def)
  have dl: "data_line (lit ''pmid_with_title'') =
      (\<lambda>r. lit ''PMID-'' @ pmid r @ lit '' # '' @
         (if length (title r) > 80 then take 80 (title r) @ lit ''...'' else title r))"
    using ne by (simp add: data_line_def fun_eq_iff)
  show line: "export_line (lit ''pmid_with_title'') r =
      lit ''PMID-'' @ pmid r @ lit '' # '' @
      (if length (title r) > 80 then take 80 (title r) @ lit ''...'' else title r) @ [NL]"
    using ne by (simp add: export_line_def)
  {
    assume "length (title r) = 90"
    then show "export_line (lit ''pmid_with_title'') r =
        lit ''PMID-'' @ pmid r @ lit '' # '' @ take 80 (title r) @ lit ''...'' @ [NL]"
      by (simp add: line)
  }
  {
    assume "extract_if_review block = Some r"
    from retained_fields_no_newline [OF this]
    have "NL \<notin> set (data_line (lit ''pmid_with_title'') r)"
      by (simp add: data_line_no_newline)
    then show "NL \<notin> set (lit ''PMID-'' @ pmid r @ lit '' # '' @
        (if length (title r) > 80 then take 80 (title r) @ lit ''...'' else title r))"
      unfolding dl .
  }
  {
    assume "export_for_webapp writable filename (lit ''pmid_with_title'') st = Inr st'"
    then have "written st' = written st @
        [(filename, export_text (lit ''pmid_with_title'') (review_articles st))]"
      by (auto simp: export_for_webapp_def print_def split: if_splits)
    then show "written st' = written st @
        [(filename,
          unlines (header_lines (length (review_articles st)) @ [[]] @
            map (\<lambda>r. lit ''PMID-'' @ pmid r @ lit '' # '' @
                   (if length (title r) > 80 then take 80 (title r) @ lit ''...'' else title r))
              (review_articles st)))]"
      unfolding export_text_lines [OF rec] dl .
  }
qed

theorem identifier_with_title_line_witness:
  "length (title long_record) = 90 \<and>
   extract_if_review long_block = Some long_record \<and>
   export_for_webapp (\<lambda>_. True) (lit ''out.txt'') (lit ''pmid_with_title'')
       \<lparr>review_articles = [long_record, example_record], stdout = [], written = []\<rparr> =
     Inr \<lparr>review_articles = [long_record, example_record],
          stdout = [lit ''Exported 2 review articles to out.txt''],
          written = [(lit ''out.txt'',
            unlines [lit ''# Review articles exclusion list'',
              lit ''# Generated automatically from MEDLINE publication types'',
              lit ''# Total reviews found: 2'', lit ''# Format: PMID per line'', [],
              lit ''PMID-7 # A systematic review of widget studies across twelve countries and forty years of...'',
              lit ''PMID-12345 # A Study of Widgets''])]\<rparr> \<and>
   export_line (lit ''pmid_with_title'') long_record =
     lit ''PMID-7 # A systematic review of widget studies across twelve countries and forty years of...'' @
     [NL]"
proof -
  have len: "length (title long_record) = 90"
    by (simp add: long_record_def long_title_def lit_def)
  have r: "extract_if_review long_block = Some long_record"
    by (simp add: long_block_def long_record_def long_title_def eval_defs)
  have e: "export_for_webapp (\<lambda>_. True) (lit ''out.txt'') (lit ''pmid_with_title'')
       \<lparr>review_articles = [long_record, example_record], stdout = [], written = []\<rparr> =
     Inr \<lparr>review_articles = [long_record, example_record],
          stdout = [lit ''Exported 2 review articles to out.txt''],
          written = [(lit ''out.txt'',
            unlines [lit ''# Review articles exclusion list'',
              lit ''# Generated automatically from MEDLINE publication types'',
              lit ''# Total reviews found: 2'', lit ''# Format: PMID per line'', [],
              lit ''PMID-7 # A systematic review of widget studies across twelve countries and forty years of...'',
              lit ''PMID-12345 # A Study of Widgets''])]\<rparr>"
    by (simp add: export_defs dec_digit example_record_def long_record_def long_title_def
        lit_def NL_def)
  have v: "lit ''PMID-'' @ pmid long_record @ lit '' # '' @ take 80 (title long_record) @
      lit ''...'' @ [NL] =
      lit ''PMID-7 # A systematic review of widget studies across twelve countries and forty years of...'' @
      [NL]"
    by (simp add: long_record_def long_title_def lit_def)
  from identifier_with_title_line [of long_record "\<lambda>_. True" "lit ''out.txt''" _ _ long_block] len
  have "export_line (lit ''pmid_with_title'') long_record =
      lit ''PMID-'' @ pmid long_record @ lit '' # '' @ take 80 (title long_record) @
      lit ''...'' @ [NL]"
    by blast
  with v have "export_line (lit ''pmid_with_title'') long_record =
      lit ''PMID-7 # A systematic review of widget studies across twelve countries and forty years of...'' @
      [NL]"
    by simp
  with len r e show ?thesis by blast
qed

text \<open>
  C10. With a format that is none of \<open>pmid\<close>, \<open>pmid_with_title\<close> and \<open>title\<close> the
  export writes the header with the number of records and the empty line after it, no
  line for any record, and ends without an exception when the file can be opened.
\<close>

theorem unrecognized_format_header_only:
  "\<not> recognized format_type \<longrightarrow>
     export_text format_type articles = unlines (header_lines (length articles) @ [[]]) \<and>
     header_lines (length articles) ! 2 =
       lit ''# Total reviews found: '' @ dec (length articles) \<and>
     (writable filename \<longrightarrow>
        export_for_webapp writable filename format_type st =
          Inr \<lparr>review_articles = review_articles st,
               stdout = stdout st @
                 [lit ''Exported '' @ dec (length (review_articles st)) @
                  lit '' review articles to '' @ filename],
               written = written st @
                 [(filename, unlines (header_lines (length (review_articles st)) @ [[]]))]\<rparr>)"
proof (intro impI conjI)
  assume "\<not> recognized format_type"
  then have "export_line format_type = (\<lambda>r. [])"
    by (simp add: recognized_def export_line_def fun_eq_iff)
  then show et: "export_text format_type articles =
      unlines (header_lines (length articles) @ [[]])" for articles
    by (simp add: export_text_def export_header_lines)
  show "header_lines (length articles) ! 2 =
      lit ''# Total reviews found: '' @ dec (length articles)"
    by (simp add: header_lines_def)
  assume w: "writable filename"
  have "encodable (export_text format_type (review_articles st))"
    using encodable_header [of "length (review_articles st)"]
    by (simp add: et export_header_lines)
  with w show "export_for_webapp writable filename format_type st =
      Inr \<lparr>review_articles = review_articles st,
           stdout = stdout st @
             [lit ''Exported '' @ dec (length (review_articles st)) @
              lit '' review articles to '' @ filename],
           written = written st @
             [(filename, unlines (header_lines (length (review_articles st)) @ [[]]))]\<rparr>"
    by (simp add: export_for_webapp_def print_def et)
qed

theorem unrecognized_format_header_only_witness:
  "\<not> recognized (lit ''csv'') \<and>
   export_for_webapp (\<lambda>_. True) (lit ''out.txt'') (lit ''csv'')
       \<lparr>review_articles = [example_record, long_record], stdout = [], written = []\<rparr> =
     Inr \<lparr>review_articles = [example_record, long_record],
          stdout = [lit ''Exported 2 review articles to out.txt''],
          written = [(lit ''out.txt'',
            unlines [lit ''# Review articles exclusion list'',
              lit ''# Generated automatically from MEDLINE publication types'',
              lit ''# Total reviews found: 2'', lit ''# Format: PMID per line'', []])]\<rparr>"
proof -
  let ?st = "\<lparr>review_articles = [example_record, long_record], stdout = [], written = []\<rparr>"
  have nr: "\<not> recognized (lit ''csv'')"
    by (simp add: recognized_def lit_def)
  from unrecognized_format_header_only
      [of "lit ''csv''" "[example_record, long_record]" "\<lambda>_. True" "lit ''out.txt''" ?st] nr
  have "export_for_webapp (\<lambda>_. True) (lit ''out.txt'') (lit ''csv'') ?st =
      Inr \<lparr>review_articles = review_articles ?st,
           stdout = stdout ?st @
             [lit ''Exported '' @ dec (length (review_articles ?st)) @
              lit '' review articles to '' @ lit ''out.txt''],
           written = written ?st @
             [(lit ''out.txt'', unlines (header_lines (length (review_articles ?st)) @ [[]]))]\<rparr>"
    by blast
  then have "export_for_webapp (\<lambda>_. True) (lit ''out.txt'') (lit ''csv'') ?st =
     Inr \<lparr>review_articles = [example_record, long_record],
          stdout = [lit ''Exported 2 review articles to out.txt''],
          written = [(lit ''out.txt'',
            unlines [lit ''# Review articles exclusion list'',
              lit ''# Generated automatically from MEDLINE publication types'',
              lit ''# Total reviews found: 2'', lit ''# Format: PMID per line'', []])]\<rparr>"
    by (simp add: header_lines_def dec_digit unlines_def lit_def)
  with nr show ?thesis by blast
qed

section \<open>Parsing the files\<close>

lemma print_fields [simp]:
  "review_articles (print msg st) = review_articles st"
  "stdout (print msg st) = stdout st @ [msg]"
  "written (print msg st) = written st"
  by (simp_all add: print_def)

lemma parse_block_console [simp]:
  "stdout (parse_block st block) = stdout st" "written (parse_block st block) = written st"
  by (simp_all add: parse_block_def split: option.splits)

lemma foldl_parse_block:
  "review_articles (foldl parse_block st blocks) =
     review_articles st @ List.map_filter extract_if_review blocks \<and>
   stdout (foldl parse_block st blocks) = stdout st \<and>
   written (foldl parse_block st blocks) = written st"
proof (induction blocks arbitrary: st)
  case Nil
  then show ?case by (simp add: List.map_filter_simps)
next
  case (Cons b blocks)
  show ?case
    unfolding foldl_Cons using Cons [of "parse_block st b"]
    by (simp add: parse_block_appends List.map_filter_simps split: option.splits)
qed

lemma parse_medline_file_File:
  assumes "fs filepath = Some (File content)"
  shows "parse_medline_file fs filepath st =
     Inr \<lparr>review_articles = review_articles st @ file_reviews content,
          stdout = stdout st @
            [lit ''Parsing file: '' @ filepath,
             found_message (length (review_articles st) + length (file_reviews content)) filepath],
          written = written st\<rparr>"
proof -
  let ?st1 = "print (lit ''Parsing file: '' @ filepath) st"
  let ?st2 = "foldl parse_block ?st1 (re_split content)"
  have f: "review_articles ?st2 = review_articles st @ file_reviews content"
    "stdout ?st2 = stdout st @ [lit ''Parsing file: '' @ filepath]"
    "written ?st2 = written st"
    using foldl_parse_block [of ?st1 "re_split content"]
    by (simp_all add: file_reviews_def)
  have "parse_medline_file fs filepath st =
      Inr (print (found_message (length (review_articles ?st2)) filepath) ?st2)"
    using assms by (simp add: parse_medline_file_def found_message_def Let_def)
  also have "print (found_message (length (review_articles ?st2)) filepath) ?st2 =
      \<lparr>review_articles = review_articles st @ file_reviews content,
       stdout = stdout st @
         [lit ''Parsing file: '' @ filepath,
          found_message (length (review_articles st) + length (file_reviews content)) filepath],
       written = written st\<rparr>"
    by (rule state.equality) (simp_all add: f)
  finally show ?thesis .
qed

lemma parse_medline_file_refused:
  "fs filepath \<noteq> None \<Longrightarrow> \<forall>content. fs filepath \<noteq> Some (File content) \<Longrightarrow>
   parse_medline_file fs filepath st = Inl (OSError filepath)"
  by (auto simp: parse_medline_file_def Let_def split: option.splits node.splits)

lemma dec_nonempty: "dec n \<noteq> []"
  by (subst dec.simps) simp

lemma dec_last: "last (dec n) = 48 + n mod 10"
  by (subst dec.simps) simp

lemma dec_butlast: "butlast (dec n) = (if n < 10 then [] else dec (n div 10))"
  by (subst dec.simps) simp

lemma dec_inj: "dec n = dec m \<Longrightarrow> n = m"
proof (induction n arbitrary: m rule: less_induct)
  case (less n)
  from less.prems have l: "n mod 10 = m mod 10"
    using dec_last [of n] dec_last [of m] by simp
  from less.prems have b: "(if n < 10 then [] else dec (n div 10)) =
      (if m < 10 then [] else dec (m div 10))"
    using dec_butlast [of n] dec_butlast [of m] by simp
  show ?case
  proof (cases "n < 10")
    case True
    with b have "m < 10" using dec_nonempty [of "m div 10"] by (auto split: if_splits)
    with True l show ?thesis by simp
  next
    case False
    with b have m: "\<not> m < 10" using dec_nonempty [of "n div 10"] by (auto split: if_splits)
    with False b have "dec (n div 10) = dec (m div 10)" by simp
    moreover from False have "n div 10 < n" by simp
    ultimately have "n div 10 = m div 10" by (rule less.IH [rotated])
    with l show ?thesis by (metis div_mult_mod_eq)
  qed
qed

lemma found_message_inj: "found_message n filepath = found_message m filepath \<longleftrightarrow> n = m"
  by (auto simp: found_message_def dest: dec_inj)

lemma re_split_example: "re_split (example_block @ [NL]) = [example_block @ [NL]]"
  by (simp add: re_split_def example_block_def lit_def NL_def isspace_def)

lemma re_split_other: "re_split other_block = [other_block]"
  by (simp add: re_split_def other_block_def lit_def NL_def isspace_def)

lemma file_reviews_example: "file_reviews (example_block @ [NL]) = [example_record]"
proof -
  have "extract_if_review (example_block @ [NL]) = Some example_record"
    by (simp add: example_block_def example_record_def eval_defs)
  then show ?thesis
    by (simp add: file_reviews_def re_split_example List.map_filter_simps)
qed

lemma file_reviews_other: "file_reviews other_block = []"
proof -
  have "extract_if_review other_block = None"
    by (simp add: other_block_def eval_defs)
  then show ?thesis
    by (simp add: file_reviews_def re_split_other List.map_filter_simps)
qed

lemma example_fs_paths:
  "example_fs (lit ''reviews.txt'') = Some (File (example_block @ [NL]))"
  "example_fs (lit ''other.txt'') = Some (File other_block)"
  "example_fs (lit ''missing.txt'') = None"
  by (simp_all add: example_fs_def lit_def)

text \<open>
  C9, as the code has it. The message printed after a file is parsed gives the number
  of records retained so far: the number retained before the file plus the number
  found in the file. It is the message with the file's own number exactly when no record
  had been retained before the file: for the first file of a run, and for a later file
  when the files before it yielded no record.
\<close>

theorem found_message_counts_all_so_far:
  "fs filepath = Some (File content) \<longrightarrow>
     parse_medline_file fs filepath st =
       Inr \<lparr>review_articles = review_articles st @ file_reviews content,
            stdout = stdout st @
              [lit ''Parsing file: '' @ filepath,
               found_message (length (review_articles st) + length (file_reviews content))
                 filepath],
            written = written st\<rparr> \<and>
     (found_message (length (review_articles st) + length (file_reviews content)) filepath =
        found_message (length (file_reviews content)) filepath \<longleftrightarrow>
      review_articles st = [])"
  by (simp add: parse_medline_file_File found_message_inj)

theorem found_message_counts_all_so_far_witness:
  "example_fs (lit ''reviews.txt'') = Some (File (example_block @ [NL])) \<and>
   parse_medline_file example_fs (lit ''reviews.txt'')
       \<lparr>review_articles = [long_record], stdout = [], written = []\<rparr> =
     Inr \<lparr>review_articles = [long_record, example_record],
          stdout = [lit ''Parsing file: reviews.txt'',
                    lit ''Found 2 review articles in reviews.txt''],
          written = []\<rparr> \<and>
   length (file_reviews (example_block @ [NL])) = 1"
proof -
  let ?st = "\<lparr>review_articles = [long_record], stdout = [], written = []\<rparr>"
  have f: "example_fs (lit ''reviews.txt'') = Some (File (example_block @ [NL]))"
    by (rule example_fs_paths)
  from found_message_counts_all_so_far
      [of example_fs "lit ''reviews.txt''" "example_block @ [NL]" ?st] f
  have "parse_medline_file example_fs (lit ''reviews.txt'') ?st =
      Inr \<lparr>review_articles = review_articles ?st @ file_reviews (example_block @ [NL]),
           stdout = stdout ?st @
             [lit ''Parsing file: '' @ lit ''reviews.txt'',
              found_message
                (length (review_articles ?st) + length (file_reviews (example_block @ [NL])))
                (lit ''reviews.txt'')],
           written = written ?st\<rparr>"
    by blast
  then have "parse_medline_file example_fs (lit ''reviews.txt'') ?st =
     Inr \<lparr>review_articles = [long_record, example_record],
          stdout = [lit ''Parsing file: reviews.txt'',
                    lit ''Found 2 review articles in reviews.txt''],
          written = []\<rparr>"
    by (simp add: file_reviews_example found_message_def dec_digit lit_def)
  with f show ?thesis by (simp add: file_reviews_example)
qed

text \<open>
  The claim as it is written has only the first file report its own number. Here the
  first file yields no record, and the second file reports 1, the number of records
  found in it.
\<close>

theorem found_message_counts_all_so_far_counterexample:
  "parse_files example_fs [lit ''other.txt'', lit ''reviews.txt''] init_state =
     Inr \<lparr>review_articles = [example_record],
          stdout = [lit ''Parsing file: other.txt'', lit ''Found 0 review articles in other.txt'',
                    lit ''Parsing file: reviews.txt'',
                    lit ''Found 1 review articles in reviews.txt''],
          written = []\<rparr> \<and>
   file_reviews (example_block @ [NL]) = [example_record]"
proof -
  have m: "lit ''Parsing file: '' @ lit ''other.txt'' = lit ''Parsing file: other.txt''"
    "found_message 0 (lit ''other.txt'') = lit ''Found 0 review articles in other.txt''"
    "lit ''Parsing file: '' @ lit ''reviews.txt'' = lit ''Parsing file: reviews.txt''"
    "found_message (Suc 0) (lit ''reviews.txt'') = lit ''Found 1 review articles in reviews.txt''"
    by (simp_all add: found_message_def dec_digit lit_def)
  have "parse_files example_fs [lit ''other.txt'', lit ''reviews.txt''] init_state =
     Inr \<lparr>review_articles = [example_record],
          stdout = [lit ''Parsing file: '' @ lit ''other.txt'', found_message 0 (lit ''other.txt''),
                    lit ''Parsing file: '' @ lit ''reviews.txt'',
                    found_message (Suc 0) (lit ''reviews.txt'')],
          written = []\<rparr>"
    by (simp add: example_fs_paths parse_medline_file_File file_reviews_example file_reviews_other
        init_state_def)
  then show ?thesis
    unfolding m by (simp add: file_reviews_example)
qed

section \<open>The run over all files\<close>

lemma parse_files_missing:
  "fs filepath = None \<Longrightarrow>
   parse_files fs (filepath # rest) st =
     parse_files fs rest (print (lit ''Warning: File '' @ filepath @ lit '' not found'') st)"
  by simp


lemma parse_files_written: "parse_files fs paths st = Inr st' \<Longrightarrow> written st' = written st"
proof (induction paths arbitrary: st)
  case Nil
  then show ?case by simp
next
  case (Cons p paths)
  show ?case
  proof (cases "fs p")
    case None
    with Cons.prems have "parse_files fs paths
        (print (lit ''Warning: File '' @ p @ lit '' not found'') st) = Inr st'"
      by simp
    from Cons.IH [OF this] show ?thesis by simp
  next
    case (Some node)
    show ?thesis
    proof (cases node)
      case (File content)
      with Some have f: "fs p = Some (File content)" by simp
      from Cons.prems f have "parse_files fs paths
          \<lparr>review_articles = review_articles st @ file_reviews content,
           stdout = stdout st @
             [lit ''Parsing file: '' @ p,
              found_message (length (review_articles st) + length (file_reviews content)) p],
           written = written st\<rparr> = Inr st'"
        by (simp add: parse_medline_file_File [of fs p content])
      from Cons.IH [OF this] show ?thesis by simp
    next
      case NotReadable
      with Some have "parse_medline_file fs p st = Inl (OSError p)"
        by (intro parse_medline_file_refused) simp_all
      with Cons.prems Some show ?thesis by simp
    qed
  qed
qed



section \<open>Statistics and export at the end of the run\<close>

lemma foldl_print:
  "review_articles (foldl (\<lambda>st msg. print msg st) st msgs) = review_articles st \<and>
   written (foldl (\<lambda>st msg. print msg st) st msgs) = written st \<and>
   stdout (foldl (\<lambda>st msg. print msg st) st msgs) = stdout st @ msgs"
  by (induction msgs arbitrary: st) simp_all

lemma show_statistics_fields [simp]:
  "review_articles (show_statistics lower st) = review_articles st"
  "written (show_statistics lower st) = written st"
  by (simp_all add: show_statistics_def Let_def foldl_print)

lemma show_statistics_none:
  "review_articles st = [] \<Longrightarrow>
   show_statistics lower st = print (lit ''No review articles found.'') st"
  by (simp add: show_statistics_def)

lemma export_for_webapp_done:
  assumes "export_for_webapp writable filename format_type st = Inr st'"
  shows "review_articles st' = review_articles st"
    and "written st' = written st @ [(filename, export_text format_type (review_articles st))]"
  using assms by (auto simp: export_for_webapp_def print_def split: if_splits)

lemma recognized_choices:
  "recognized format_type \<longleftrightarrow>
     format_type \<in> set [lit ''pmid'', lit ''pmid_with_title'', lit ''title'']"
  by (auto simp: recognized_def)

text \<open>
  C8. After the files are read and the statistics printed, \<open>main\<close> calls the export
  exactly when the list of retained records is not empty. A run that ends with an empty
  list has written no file and its last message is that no review articles were found
  to export; a run that ends with records has written the one output file, with the
  text of the export for these records.
\<close>

theorem export_iff_reviews_found:
  "(parse_files fs (arg_files a) init_state = Inr st \<and> arg_files a \<noteq> [] \<and>
    recognized (arg_format a) \<longrightarrow>
      main lower fs writable a =
        (if review_articles st = []
         then Inr (print no_reviews_to_export (print (lit ''No review articles found.'') st))
         else (case export_for_webapp writable (arg_output a) (arg_format a)
                      (show_statistics lower st) of
                 Inl e \<Rightarrow> Inl e
               | Inr st'' \<Rightarrow> Inr (print use_this_file st'')))) \<and>
   (main lower fs writable a = Inr st' \<longrightarrow>
      (\<exists>st. parse_files fs (arg_files a) init_state = Inr st \<and>
         review_articles st' = review_articles st) \<and>
      (if review_articles st' = []
       then written st' = [] \<and> last (stdout st') = no_reviews_to_export
       else written st' = [(arg_output a, export_text (arg_format a) (review_articles st'))] \<and>
            last (stdout st') = use_this_file))"
proof (intro conjI impI)
  assume "parse_files fs (arg_files a) init_state = Inr st \<and> arg_files a \<noteq> [] \<and>
    recognized (arg_format a)"
  then show "main lower fs writable a =
      (if review_articles st = []
       then Inr (print no_reviews_to_export (print (lit ''No review articles found.'') st))
       else (case export_for_webapp writable (arg_output a) (arg_format a)
                    (show_statistics lower st) of
               Inl e \<Rightarrow> Inl e
             | Inr st'' \<Rightarrow> Inr (print use_this_file st'')))"
    unfolding main_def recognized_choices [symmetric]
    by (simp add: Let_def show_statistics_none)
next
  assume m: "main lower fs writable a = Inr st'"
  then have guard: "\<not> (arg_files a = [] \<or> \<not> recognized (arg_format a))"
    unfolding main_def recognized_choices [symmetric] by (auto split: if_splits)
  with m obtain st where pf: "parse_files fs (arg_files a) init_state = Inr st"
    unfolding main_def recognized_choices [symmetric]
    by (cases "parse_files fs (arg_files a) init_state") simp_all
  from parse_files_written [OF pf] have w: "written st = []"
    by (simp add: init_state_def)
  let ?st0 = "show_statistics lower st"
  have fin: "review_articles st' = review_articles st \<and>
      (if review_articles st' = []
       then written st' = [] \<and> last (stdout st') = no_reviews_to_export
       else written st' = [(arg_output a, export_text (arg_format a) (review_articles st'))] \<and>
            last (stdout st') = use_this_file)"
  proof (cases "review_articles st = []")
    case True
    with m guard pf have "st' = print no_reviews_to_export ?st0"
      unfolding main_def recognized_choices [symmetric] by (simp add: Let_def)
    with True w show ?thesis by simp
  next
    case False
    with m guard pf obtain st'' where
      e: "export_for_webapp writable (arg_output a) (arg_format a) ?st0 = Inr st''"
      and s: "st' = print use_this_file st''"
      unfolding main_def recognized_choices [symmetric]
      by (cases "export_for_webapp writable (arg_output a) (arg_format a) ?st0")
        (simp_all add: Let_def)
    from export_for_webapp_done [OF e] s False w show ?thesis by simp
  qed
  from pf fin show "\<exists>st. parse_files fs (arg_files a) init_state = Inr st \<and>
      review_articles st' = review_articles st"
    by blast
  from fin show "if review_articles st' = []
      then written st' = [] \<and> last (stdout st') = no_reviews_to_export
      else written st' = [(arg_output a, export_text (arg_format a) (review_articles st'))] \<and>
           last (stdout st') = use_this_file"
    by blast
qed

theorem export_iff_reviews_found_witness:
  "parse_files example_fs (arg_files example_args) init_state =
     Inr \<lparr>review_articles = [example_record],
          stdout = [lit ''Parsing file: reviews.txt'',
                    lit ''Found 1 review articles in reviews.txt''],
          written = []\<rparr> \<and>
   arg_files example_args \<noteq> [] \<and> recognized (arg_format example_args) \<and>
   main ascii_lower example_fs (\<lambda>_. True) example_args =
     Inr \<lparr>review_articles = [example_record],
          stdout = [lit ''Parsing file: reviews.txt'',
                    lit ''Found 1 review articles in reviews.txt'',
                    [NL] @ lit ''Review Articles Statistics:'',
                    lit ''Total review articles: 1'',
                    [NL] @ lit ''Publication types found:'',
                    lit ''  Review: 1'',
                    [NL] @ lit ''First 5 review articles:'',
                    lit ''  1. PMID 12345: A Study of Widgets'',
                    lit ''     Types: Review'',
                    lit ''Exported 1 review articles to review_articles_exclusion.txt'',
                    use_this_file],
          written = [(lit ''review_articles_exclusion.txt'',
            unlines [lit ''# Review articles exclusion list'',
              lit ''# Generated automatically from MEDLINE publication types'',
              lit ''# Total reviews found: 1'', lit ''# Format: PMID per line'', [],
              lit ''12345''])]\<rparr> \<and>
   main ascii_lower example_fs (\<lambda>_. True) (example_args\<lparr>arg_files := [lit ''other.txt'']\<rparr>) =
     Inr \<lparr>review_articles = [],
          stdout = [lit ''Parsing file: other.txt'', lit ''Found 0 review articles in other.txt'',
                    lit ''No review articles found.'', no_reviews_to_export],
          written = []\<rparr>"
proof -
  let ?s1 = "\<lparr>review_articles = [example_record],
      stdout = [lit ''Parsing file: reviews.txt'', lit ''Found 1 review articles in reviews.txt''],
      written = []\<rparr>"
  let ?stats = "[[NL] @ lit ''Review Articles Statistics:'', lit ''Total review articles: 1'',
      [NL] @ lit ''Publication types found:'', lit ''  Review: 1'',
      [NL] @ lit ''First 5 review articles:'', lit ''  1. PMID 12345: A Study of Widgets'',
      lit ''     Types: Review'']"
  let ?s2 = "\<lparr>review_articles = [example_record],
      stdout = [lit ''Parsing file: reviews.txt'', lit ''Found 1 review articles in reviews.txt'']
        @ ?stats,
      written = []\<rparr>"
  let ?text = "unlines [lit ''# Review articles exclusion list'',
      lit ''# Generated automatically from MEDLINE publication types'',
      lit ''# Total reviews found: 1'', lit ''# Format: PMID per line'', [], lit ''12345'']"
  let ?s3 = "\<lparr>review_articles = [example_record],
      stdout = [lit ''Parsing file: reviews.txt'', lit ''Found 1 review articles in reviews.txt'']
        @ ?stats @ [lit ''Exported 1 review articles to review_articles_exclusion.txt''],
      written = [(lit ''review_articles_exclusion.txt'', ?text)]\<rparr>"
  let ?t1 = "\<lparr>review_articles = [],
      stdout = [lit ''Parsing file: other.txt'', lit ''Found 0 review articles in other.txt''],
      written = []\<rparr>"
  have m: "lit ''Parsing file: '' @ lit ''reviews.txt'' = lit ''Parsing file: reviews.txt''"
    "found_message (Suc 0) (lit ''reviews.txt'') = lit ''Found 1 review articles in reviews.txt''"
    "lit ''Parsing file: '' @ lit ''other.txt'' = lit ''Parsing file: other.txt''"
    "found_message 0 (lit ''other.txt'') = lit ''Found 0 review articles in other.txt''"
    by (simp_all add: found_message_def dec_digit lit_def)
  have "parse_files example_fs [lit ''reviews.txt''] init_state =
      Inr \<lparr>review_articles = [example_record],
           stdout = [lit ''Parsing file: '' @ lit ''reviews.txt'',
                     found_message (Suc 0) (lit ''reviews.txt'')],
           written = []\<rparr>"
    by (simp add: example_fs_paths parse_medline_file_File file_reviews_example init_state_def)
  then have pf: "parse_files example_fs (arg_files example_args) init_state = Inr ?s1"
    unfolding m by (simp add: example_args_def)
  have "parse_files example_fs [lit ''other.txt''] init_state =
      Inr \<lparr>review_articles = [],
           stdout = [lit ''Parsing file: '' @ lit ''other.txt'', found_message 0 (lit ''other.txt'')],
           written = []\<rparr>"
    by (simp add: example_fs_paths parse_medline_file_File file_reviews_other init_state_def)
  then have pf2: "parse_files example_fs
      (arg_files (example_args\<lparr>arg_files := [lit ''other.txt'']\<rparr>)) init_state = Inr ?t1"
    unfolding m by simp
  have files: "arg_files example_args \<noteq> []"
    "arg_files (example_args\<lparr>arg_files := [lit ''other.txt'']\<rparr>) \<noteq> []"
    by (simp_all add: example_args_def)
  have rec: "recognized (arg_format example_args)"
    "recognized (arg_format (example_args\<lparr>arg_files := [lit ''other.txt'']\<rparr>))"
    by (simp_all add: example_args_def recognized_def)
  have ss: "show_statistics ascii_lower ?s1 = ?s2"
    by (simp add: show_statistics_def print_def most_common_def type_lines_def
        example_lines_def ascii_lower_def startswith_def example_record_def dec_digit
        lit_def NL_def)
  have ex: "export_for_webapp (\<lambda>_. True) (arg_output example_args) (arg_format example_args) ?s2 =
      Inr ?s3"
    by (simp add: export_defs example_args_def dec_digit example_record_def lit_def NL_def)
  from export_iff_reviews_found
      [of example_fs example_args ?s1 ascii_lower "\<lambda>_. True"] pf files(1) rec(1)
  have "main ascii_lower example_fs (\<lambda>_. True) example_args =
      (if review_articles ?s1 = []
       then Inr (print no_reviews_to_export (print (lit ''No review articles found.'') ?s1))
       else (case export_for_webapp (\<lambda>_. True) (arg_output example_args)
                    (arg_format example_args) (show_statistics ascii_lower ?s1) of
               Inl e \<Rightarrow> Inl e
             | Inr st'' \<Rightarrow> Inr (print use_this_file st'')))"
    by blast
  then have a: "main ascii_lower example_fs (\<lambda>_. True) example_args =
      Inr (print use_this_file ?s3)"
    unfolding ss ex by simp
  from export_iff_reviews_found
      [of example_fs "example_args\<lparr>arg_files := [lit ''other.txt'']\<rparr>" ?t1 ascii_lower
          "\<lambda>_. True"] pf2 files(2) rec(2)
  have "main ascii_lower example_fs (\<lambda>_. True) (example_args\<lparr>arg_files := [lit ''other.txt'']\<rparr>) =
      (if review_articles ?t1 = []
       then Inr (print no_reviews_to_export (print (lit ''No review articles found.'') ?t1))
       else (case export_for_webapp (\<lambda>_. True)
                    (arg_output (example_args\<lparr>arg_files := [lit ''other.txt'']\<rparr>))
                    (arg_format (example_args\<lparr>arg_files := [lit ''other.txt'']\<rparr>))
                    (show_statistics ascii_lower ?t1) of
               Inl e \<Rightarrow> Inl e
             | Inr st'' \<Rightarrow> Inr (print use_this_file st'')))"
    by blast
  then have b: "main ascii_lower example_fs (\<lambda>_. True)
      (example_args\<lparr>arg_files := [lit ''other.txt'']\<rparr>) =
      Inr (print no_reviews_to_export (print (lit ''No review articles found.'') ?t1))"
    by simp
  from pf files(1) rec(1) a b show ?thesis
    by (simp add: print_def)
qed

end
